theory Spec2Isabelle
  imports Main "HOL-Library.Word"
begin

section \<open>The MediaFranca SVG validator (tools/validator.py)\<close>

text \<open>
  A shallow embedding of the class \<open>SVGValidator\<close>. The validator object is a record,
  every method is a function on that record, and a raised exception is a value: a stage
  returns the exception (if any) together with the object as it was when the exception
  left the method, because \<open>self.errors\<close> and \<open>self.warnings\<close> are appended to in place.
  The libraries the code calls (the XML parser, \<open>json.loads\<close>, \<open>jsonschema\<close>, the file
  system) are not part of the repository; what they return is a field of the record
  \<open>env\<close>, one value for each call the code makes.
\<close>

subsection \<open>Python strings\<close>

definition q :: string where
  "q = [CHR 0x27]"

definition quoted :: "string \<Rightarrow> string" where
  "quoted s = q @ s @ q"

text \<open>\<open>sub in s\<close> on two strings.\<close>

fun starts_with :: "string \<Rightarrow> string \<Rightarrow> bool" where
  "starts_with [] s = True"
| "starts_with (a # as) [] = False"
| "starts_with (a # as) (b # bs) = (a = b \<and> starts_with as bs)"

fun contains :: "string \<Rightarrow> string \<Rightarrow> bool" where
  "contains sub [] = (sub = [])"
| "contains sub (c # cs) = (starts_with sub (c # cs) \<or> contains sub cs)"

text \<open>
  \<open>str.strip()\<close>: the characters \<open>str.isspace\<close> accepts among the first 256 code points.
\<close>

definition is_space :: "char \<Rightarrow> bool" where
  "is_space c = (of_char c \<in> {9, 10, 11, 12, 13, 28, 29, 30, 31, 32, 133, 160 :: nat})"

definition strip :: "string \<Rightarrow> string" where
  "strip s = rev (dropWhile is_space (rev (dropWhile is_space s)))"

text \<open>\<open>not x.text or not x.text.strip()\<close>, for a text that is \<open>None\<close> or a string.\<close>

definition text_blank :: "string option \<Rightarrow> bool" where
  "text_blank t = (case t of None \<Rightarrow> True | Some s \<Rightarrow> s = [] \<or> strip s = [])"

text \<open>\<open>not v\<close> for an attribute value that is \<open>None\<close> or a string.\<close>

definition attr_falsy :: "string option \<Rightarrow> bool" where
  "attr_falsy v = (case v of None \<Rightarrow> True | Some s \<Rightarrow> s = [])"

text \<open>An optional string inside an f-string.\<close>

definition opt_str :: "string option \<Rightarrow> string" where
  "opt_str v = (case v of None \<Rightarrow> ''None'' | Some s \<Rightarrow> s)"

text \<open>A non-negative index and an integer inside an f-string.\<close>

fun nat_str :: "nat \<Rightarrow> string" where
  "nat_str n = (if n < 10 then [char_of (48 + n)]
                else nat_str (n div 10) @ [char_of (48 + n mod 10)])"

declare nat_str.simps [simp del]

definition int_str :: "int \<Rightarrow> string" where
  "int_str i = (if i < 0 then ''-'' @ nat_str (nat (- i)) else nat_str (nat i))"

subsection \<open>The element tree\<close>

text \<open>
  An \<open>xml.etree.ElementTree.Element\<close>: tag (with the namespace in braces, as the parser
  writes it), attribute dictionary, text before the first child, children in document
  order.
\<close>

datatype element =
  Element (tag: string) (attrib: "(string \<times> string) list")
          (elem_text: "string option") (children: "element list")

definition svg_ns :: string where
  "svg_ns = ''http://www.w3.org/2000/svg''"

text \<open>The tag that the path \<open>svg:name\<close> stands for under the prefix map \<open>NS\<close>.\<close>

definition ns_tag :: "string \<Rightarrow> string" where
  "ns_tag name = ''{'' @ svg_ns @ ''}'' @ name"

text \<open>\<open>elem.get(attr)\<close>\<close>

definition get_attr :: "element \<Rightarrow> string \<Rightarrow> string option" where
  "get_attr e a = map_of (attrib e) a"

text \<open>\<open>elem.find(t)\<close>: the first child with that tag.\<close>

definition find_child :: "string \<Rightarrow> element \<Rightarrow> element option" where
  "find_child t e = List.find (\<lambda>c. tag c = t) (children e)"

text \<open>
  The pattern \<open>x = e.find('svg:name', NS); if x is None: x = e.find('name')\<close>.
\<close>

definition find_svg :: "string \<Rightarrow> element \<Rightarrow> element option" where
  "find_svg name e =
     (case find_child (ns_tag name) e of
        Some c \<Rightarrow> Some c
      | None \<Rightarrow> find_child name e)"

text \<open>All elements below \<open>e\<close> (not \<open>e\<close> itself) in document order, as \<open>.//\<close> visits them.\<close>

fun iter_below :: "element \<Rightarrow> element list" where
  "iter_below (Element t a x cs) = concat (map (\<lambda>c. c # iter_below c) cs)"

text \<open>
  \<open>groups = root.findall('.//svg:g', NS); if not groups: groups = root.findall('.//g')\<close>
\<close>

definition find_groups :: "element \<Rightarrow> element list" where
  "find_groups e =
     (let groups = filter (\<lambda>g. tag g = ns_tag ''g'') (iter_below e)
      in if groups = [] then filter (\<lambda>g. tag g = ''g'') (iter_below e) else groups)"

subsection \<open>Decoded JSON values\<close>

text \<open>
  What \<open>json.loads\<close> returns: \<open>None\<close>, \<open>bool\<close>, \<open>int\<close> (unbounded), \<open>float\<close> (the 64 bits of
  the double), \<open>str\<close>, \<open>list\<close>, \<open>dict\<close> (an association list in insertion order, read
  with \<open>map_of\<close>).
\<close>

datatype json =
  JNull
| JBool bool
| JInt int
| JFloat "64 word"
| JStr string
| JArr "json list"
| JObj "(string \<times> json) list"

datatype pytype = TNone | TBool | TInt | TFloat | TStr | TList | TDict

fun pytype_of :: "json \<Rightarrow> pytype" where
  "pytype_of JNull = TNone"
| "pytype_of (JBool b) = TBool"
| "pytype_of (JInt i) = TInt"
| "pytype_of (JFloat w) = TFloat"
| "pytype_of (JStr s) = TStr"
| "pytype_of (JArr xs) = TList"
| "pytype_of (JObj kvs) = TDict"

text \<open>Truth value of a decoded value (\<open>if v\<close>, \<open>not v\<close>); a float is false when it is +0.0 or -0.0.\<close>

fun truthy :: "json \<Rightarrow> bool" where
  "truthy JNull = False"
| "truthy (JBool b) = b"
| "truthy (JInt i) = (i \<noteq> 0)"
| "truthy (JFloat w) = (w \<noteq> 0 \<and> w \<noteq> 0x8000000000000000)"
| "truthy (JStr s) = (s \<noteq> [])"
| "truthy (JArr xs) = (xs \<noteq> [])"
| "truthy (JObj kvs) = (kvs \<noteq> [])"

text \<open>
  The exceptions other than \<open>ValidationError\<close> that the code can meet: one raised inside
  a library call (with its text), and the interpreter's own for an operation applied to
  a value of the wrong type.
\<close>

datatype pyerr =
  LibraryError string
| NotContainer pytype
| NotSubscriptable pytype
| BadSubscript pytype
| KeyError string
| NotIterable pytype
| NoAttribute pytype string
| Unhashable pytype

datatype exn = ValidationError string | Other pyerr

text \<open>\<open>key in v\<close> for a string key.\<close>

fun py_in :: "string \<Rightarrow> json \<Rightarrow> pyerr + bool" where
  "py_in k (JObj kvs) = Inr (map_of kvs k \<noteq> None)"
| "py_in k (JArr xs) = Inr (JStr k \<in> set xs)"
| "py_in k (JStr s) = Inr (contains k s)"
| "py_in k v = Inl (NotContainer (pytype_of v))"

text \<open>\<open>v[key]\<close> for a string key.\<close>

fun py_getitem :: "json \<Rightarrow> string \<Rightarrow> pyerr + json" where
  "py_getitem (JObj kvs) k = (case map_of kvs k of None \<Rightarrow> Inl (KeyError k) | Some v \<Rightarrow> Inr v)"
| "py_getitem (JArr xs) k = Inl (BadSubscript TList)"
| "py_getitem (JStr s) k = Inl (BadSubscript TStr)"
| "py_getitem v k = Inl (NotSubscriptable (pytype_of v))"

text \<open>\<open>for x in v\<close>: a list gives its items, a dict its keys, a string its characters.\<close>

fun py_iter :: "json \<Rightarrow> pyerr + json list" where
  "py_iter (JArr xs) = Inr xs"
| "py_iter (JObj kvs) = Inr (map (\<lambda>kv. JStr (fst kv)) kvs)"
| "py_iter (JStr s) = Inr (map (\<lambda>c. JStr [c]) s)"
| "py_iter v = Inl (NotIterable (pytype_of v))"

text \<open>\<open>v in ids\<close> for a set of strings: the value is hashed first.\<close>

fun py_in_set :: "json \<Rightarrow> string list \<Rightarrow> pyerr + bool" where
  "py_in_set (JStr s) ids = Inr (s \<in> set ids)"
| "py_in_set (JArr xs) ids = Inl (Unhashable TList)"
| "py_in_set (JObj kvs) ids = Inl (Unhashable TDict)"
| "py_in_set v ids = Inr False"

text \<open>\<open>d.get(key, default)\<close> on a dict.\<close>

definition dict_get :: "(string \<times> json) list \<Rightarrow> string \<Rightarrow> json \<Rightarrow> json" where
  "dict_get kvs k d = (case map_of kvs k of None \<Rightarrow> d | Some v \<Rightarrow> v)"

text \<open>
  A decoded value inside an f-string. The text of a float, a list or a dict is the
  interpreter's \<open>repr\<close>, taken as the parameter \<open>rp\<close>.
\<close>

fun py_str :: "(json \<Rightarrow> string) \<Rightarrow> json \<Rightarrow> string" where
  "py_str rp (JStr s) = s"
| "py_str rp JNull = ''None''"
| "py_str rp (JBool b) = (if b then ''True'' else ''False'')"
| "py_str rp (JInt i) = int_str i"
| "py_str rp v = rp v"

subsection \<open>The environment of one run\<close>

datatype parse_outcome =
  Parsed element
| ParseError string
| FileNotFound
| ParseRaised string

datatype loads_outcome =
  Loaded json
| JSONDecodeError string
| LoadsRaised string

datatype schema_outcome =
  Conforms
| SchemaViolation string
| ValidateRaised string

text \<open>
  \<open>et_parse\<close>: what \<open>ET.parse(self.svg_path)\<close> does (the root of the tree, a \<open>ParseError\<close>
  with its text, \<open>FileNotFoundError\<close>, or another exception with its text);
  \<open>json_loads\<close>: \<open>json.loads\<close>; \<open>jsonschema_available\<close>: the module constant
  \<open>JSONSCHEMA_AVAILABLE\<close>; \<open>schema_exists\<close>: \<open>self.schema_path.exists()\<close>;
  \<open>load_schema\<close>: opening and decoding the schema file (\<open>Inl\<close> the text of the exception);
  \<open>jsonschema_validate\<close>: \<open>jsonschema.validate\<close> of an instance against a schema;
  \<open>py_repr\<close> and \<open>err_str\<close>: the interpreter's text of a value and of an exception.
\<close>

record env =
  svg_path :: string
  schema_path :: string
  et_parse :: parse_outcome
  json_loads :: "string \<Rightarrow> loads_outcome"
  jsonschema_available :: bool
  schema_exists :: bool
  load_schema :: "string + json"
  jsonschema_validate :: "json \<Rightarrow> json \<Rightarrow> schema_outcome"
  py_repr :: "json \<Rightarrow> string"
  err_str :: "pyerr \<Rightarrow> string"

subsection \<open>The validator object\<close>

text \<open>
  The fields that \<open>__init__\<close> sets and the methods change. \<open>self.metadata\<close> is \<open>None\<close>
  until a payload is decoded; \<open>None\<close> is also what the payload \<open>null\<close> decodes to.
\<close>

record validator =
  root :: "element option"
  metadata :: json
  errors :: "string list"
  warnings :: "string list"

definition init :: validator where
  "init = \<lparr>root = None, metadata = JNull, errors = [], warnings = []\<rparr>"

definition add_error :: "string \<Rightarrow> validator \<Rightarrow> validator" where
  "add_error m st = st\<lparr>errors := errors st @ [m]\<rparr>"

definition add_warning :: "string \<Rightarrow> validator \<Rightarrow> validator" where
  "add_warning m st = st\<lparr>warnings := warnings st @ [m]\<rparr>"

text \<open>A method that may raise: the exception, if any, and the object afterwards.\<close>

type_synonym stage = "validator \<Rightarrow> exn option \<times> validator"

definition ok :: stage where
  "ok st = (None, st)"

definition raise :: "exn \<Rightarrow> stage" where
  "raise e st = (Some e, st)"

definition seq :: "stage \<Rightarrow> stage \<Rightarrow> stage" where
  "seq f g st = (case f st of (None, st') \<Rightarrow> g st' | (Some e, st') \<Rightarrow> (Some e, st'))"

text \<open>A \<open>for\<close> loop whose body may raise.\<close>

fun for_each :: "('a \<Rightarrow> stage) \<Rightarrow> 'a list \<Rightarrow> stage" where
  "for_each body [] st = ok st"
| "for_each body (x # xs) st = seq (body x) (for_each body xs) st"

text \<open>
  Reading \<open>self.root\<close> and using its attribute \<open>a\<close> (\<open>tag\<close>, \<open>get\<close>, \<open>find\<close>, \<open>findall\<close>); on
  \<open>None\<close> that is an AttributeError.
\<close>

definition with_root :: "string \<Rightarrow> (element \<Rightarrow> stage) \<Rightarrow> stage" where
  "with_root a f st =
     (case root st of
        None \<Rightarrow> raise (Other (NoAttribute TNone a)) st
      | Some r \<Rightarrow> f r st)"

subsection \<open>Parsing and the checks that come before the metadata\<close>

text \<open>
  \<open>_parse_svg\<close>. The field \<open>self.tree\<close> is only read to get \<open>self.root\<close> and is left out.
  A \<open>ParseError\<close> and a \<open>FileNotFoundError\<close> become a \<open>ValidationError\<close>; any other
  exception of the parser leaves the method as it is.
\<close>

definition parse_svg :: "env \<Rightarrow> stage" where
  "parse_svg env st =
     (case et_parse env of
        ParseError m \<Rightarrow> raise (ValidationError (''XML parsing error: '' @ m)) st
      | FileNotFound \<Rightarrow> raise (ValidationError (''File not found: '' @ svg_path env)) st
      | ParseRaised m \<Rightarrow> raise (Other (LibraryError m)) st
      | Parsed r \<Rightarrow>
          with_root ''tag'' (\<lambda>r'. if tag r' \<noteq> ns_tag ''svg'' \<and> tag r' \<noteq> ''svg''
                         then raise (ValidationError (''Root element must be <svg>, found: '' @ tag r'))
                         else ok)
            (st\<lparr>root := Some r\<rparr>))"

text \<open>
  \<open>_check_root_attributes\<close>. An expected value of \<open>None\<close> means that the attribute must
  exist and its value is not compared.
\<close>

definition required_root_attrs :: "(string \<times> string option) list" where
  "required_root_attrs = [(''role'', Some ''img''), (''aria-labelledby'', None)]"

definition check_root_attr :: "element \<Rightarrow> string \<times> string option \<Rightarrow> validator \<Rightarrow> validator" where
  "check_root_attr r p st =
     (let attr = fst p; expected_value = snd p in
      case get_attr r attr of
        None \<Rightarrow> add_error (''Missing required attribute on <svg>: '' @ attr) st
      | Some actual_value \<Rightarrow>
          (case expected_value of
             None \<Rightarrow> st
           | Some ev \<Rightarrow>
               if ev \<noteq> [] \<and> actual_value \<noteq> ev
               then add_error (''Incorrect value for <svg> attribute '' @ quoted attr
                               @ '': expected '' @ quoted ev
                               @ '', found '' @ quoted actual_value) st
               else st))"

definition check_root_attributes_on :: "element \<Rightarrow> validator \<Rightarrow> validator" where
  "check_root_attributes_on r st =
     (let st1 = fold (check_root_attr r) required_root_attrs st in
      if map_of (attrib r) ''xmlns'' = None \<and> \<not> contains svg_ns (tag r)
      then add_warning ''SVG namespace not explicitly declared'' st1
      else st1)"

definition check_root_attributes :: stage where
  "check_root_attributes = with_root ''get'' (\<lambda>r st. ok (check_root_attributes_on r st))"

text \<open>\<open>_check_title_and_desc\<close>\<close>

definition check_text_element :: "string \<Rightarrow> element option \<Rightarrow> validator \<Rightarrow> validator" where
  "check_text_element name found st =
     (case found of
        None \<Rightarrow> add_error (''Missing required <'' @ name @ ''> element'') st
      | Some e \<Rightarrow>
          (let st1 = (if text_blank (elem_text e)
                      then add_error (''<'' @ name @ ''> element is empty'') st else st)
           in if attr_falsy (get_attr e ''id'')
              then add_warning (''<'' @ name @ ''> should have an '' @ quoted ''id'' @ '' attribute'') st1
              else st1))"

definition check_title_and_desc_on :: "element \<Rightarrow> validator \<Rightarrow> validator" where
  "check_title_and_desc_on r st =
     (let title = find_svg ''title'' r; desc = find_svg ''desc'' r in
      check_text_element ''desc'' desc (check_text_element ''title'' title st))"

definition check_title_and_desc :: stage where
  "check_title_and_desc = with_root ''find'' (\<lambda>r st. ok (check_title_and_desc_on r st))"

subsection \<open>The metadata block\<close>

text \<open>
  \<open>_validate_metadata_basic\<close>. The membership tests and the subscript are applied to
  whatever value the payload decoded to, so they can raise.
\<close>

definition required_fields :: "string list" where
  "required_fields = [''version'', ''utterance'', ''nsm'', ''concepts'', ''provenance'']"

definition check_required_field :: "string \<Rightarrow> stage" where
  "check_required_field field st =
     (case py_in field (metadata st) of
        Inl e \<Rightarrow> raise (Other e) st
      | Inr present \<Rightarrow>
          ok (if \<not> present then add_error (''Missing required metadata field: '' @ field) st
              else st))"

definition check_concept_basic ::
    "(json \<Rightarrow> string) \<Rightarrow> nat \<times> json \<Rightarrow> validator \<Rightarrow> validator" where
  "check_concept_basic rp p st =
     (let i = fst p in
      case snd p of
        JObj concept \<Rightarrow>
          (let st1 = fold (\<lambda>req_field s.
                        if map_of concept req_field = None
                        then add_error (''Missing required field '' @ quoted req_field
                                        @ '' in metadata.concepts['' @ nat_str i @ '']'') s
                        else s) [''role'', ''label''] st;
               is_implicit = dict_get concept ''implicit'' (JBool False)
           in if \<not> truthy is_implicit \<and> map_of concept ''id'' = None
              then add_error (''Missing required field '' @ quoted ''id''
                     @ '' in metadata.concepts['' @ nat_str i @ ''] (role: ''
                     @ py_str rp (dict_get concept ''role'' (JStr ''unknown''))
                     @ ''). Explicit concepts must have an '' @ quoted ''id'' @ '' field.'') st1
              else st1)
      | _ \<Rightarrow> add_error (''metadata.concepts['' @ nat_str i @ ''] must be an object'') st)"

definition check_concepts_basic :: "(json \<Rightarrow> string) \<Rightarrow> stage" where
  "check_concepts_basic rp st =
     (case py_in ''concepts'' (metadata st) of
        Inl e \<Rightarrow> raise (Other e) st
      | Inr False \<Rightarrow> ok st
      | Inr True \<Rightarrow>
          (case py_getitem (metadata st) ''concepts'' of
             Inl e \<Rightarrow> raise (Other e) st
           | Inr (JArr cs) \<Rightarrow>
               if cs = [] then ok (add_error ''metadata.concepts array is empty'' st)
               else ok (fold (check_concept_basic rp) (enumerate 0 cs) st)
           | Inr _ \<Rightarrow> ok (add_error ''metadata.concepts must be an array'' st)))"

definition validate_metadata_basic :: "env \<Rightarrow> stage" where
  "validate_metadata_basic env =
     seq (for_each check_required_field required_fields) (check_concepts_basic (py_repr env))"

text \<open>\<open>_validate_metadata_schema\<close>\<close>

definition validate_metadata_schema :: "env \<Rightarrow> stage" where
  "validate_metadata_schema env st =
     (if \<not> schema_exists env
      then validate_metadata_basic env
             (add_warning (''Schema file not found: '' @ schema_path env) st)
      else case load_schema env of
             Inl e \<Rightarrow> validate_metadata_basic env
                        (add_warning (''Could not load schema: '' @ e) st)
           | Inr schema \<Rightarrow>
               (case jsonschema_validate env (metadata st) schema of
                  Conforms \<Rightarrow> ok st
                | SchemaViolation m \<Rightarrow>
                    ok (add_error (''Metadata schema validation error: '' @ m) st)
                | ValidateRaised m \<Rightarrow>
                    ok (add_error (''Metadata validation error: '' @ m) st)))"

text \<open>\<open>_extract_and_validate_metadata\<close>\<close>

definition check_metadata_id :: "element \<Rightarrow> validator \<Rightarrow> validator" where
  "check_metadata_id metadata_elem st =
     (let metadata_id = get_attr metadata_elem ''id'' in
      if metadata_id \<noteq> Some ''mf-accessibility''
      then add_warning (''<metadata> id should be '' @ quoted ''mf-accessibility''
                        @ '', found: '' @ opt_str metadata_id) st
      else st)"

definition extract_and_validate_metadata_on :: "env \<Rightarrow> element \<Rightarrow> stage" where
  "extract_and_validate_metadata_on env r st =
     (case find_svg ''metadata'' r of
        None \<Rightarrow> raise (ValidationError ''Missing required <metadata> element'') st
      | Some metadata_elem \<Rightarrow>
          (let st1 = check_metadata_id metadata_elem st in
           case elem_text metadata_elem of
             None \<Rightarrow> raise (ValidationError ''<metadata> element is empty'') st1
           | Some metadata_text \<Rightarrow>
               if metadata_text = [] \<or> strip metadata_text = []
               then raise (ValidationError ''<metadata> element is empty'') st1
               else (case json_loads env metadata_text of
                       JSONDecodeError m \<Rightarrow>
                         raise (ValidationError (''Invalid JSON in <metadata>: '' @ m)) st1
                     | LoadsRaised m \<Rightarrow> raise (Other (LibraryError m)) st1
                     | Loaded v \<Rightarrow>
                         (let st2 = st1\<lparr>metadata := v\<rparr> in
                          if jsonschema_available env then validate_metadata_schema env st2
                          else validate_metadata_basic env
                                 (add_warning
                                    ''Skipping JSON schema validation (jsonschema not installed)''
                                    st2)))))"

definition extract_and_validate_metadata :: "env \<Rightarrow> stage" where
  "extract_and_validate_metadata env = with_root ''find'' (extract_and_validate_metadata_on env)"

subsection \<open>The checks that come after the metadata\<close>

text \<open>\<open>_check_embedded_stylesheet\<close>\<close>

definition check_embedded_stylesheet_on :: "element \<Rightarrow> validator \<Rightarrow> validator" where
  "check_embedded_stylesheet_on r st =
     (case find_svg ''defs'' r of
        None \<Rightarrow> add_warning ''No <defs> element found; embedded stylesheet recommended'' st
      | Some defs \<Rightarrow>
          (case find_svg ''style'' defs of
             None \<Rightarrow>
               add_warning ''No <style> element in <defs>; embedded stylesheet recommended'' st
           | Some style \<Rightarrow>
               (let style_text = (case elem_text style of None \<Rightarrow> [] | Some s \<Rightarrow> s);
                    st1 = fold (\<lambda>cls s.
                             if \<not> contains cls style_text
                             then add_warning (''Embedded stylesheet should define class ''
                                               @ quoted cls) s
                             else s) [''.f'', ''.k''] st;
                    st2 = (if \<not> contains ''@media (prefers-contrast: high)'' style_text
                           then add_warning (''Embedded stylesheet should include ''
                                             @ quoted ''@media (prefers-contrast: high)'') st1
                           else st1)
                in if \<not> contains ''@media (forced-colors: active)'' style_text
                   then add_warning (''Embedded stylesheet should include ''
                                     @ quoted ''@media (forced-colors: active)'') st2
                   else st2)))"

definition check_embedded_stylesheet :: stage where
  "check_embedded_stylesheet = with_root ''find'' (\<lambda>r st. ok (check_embedded_stylesheet_on r st))"

text \<open>
  \<open>_check_semantic_groups\<close>. The completeness check is guarded by \<open>if data_concept\<close>, which
  an absent and an empty attribute both fail.
\<close>

definition required_group_attrs :: "(string \<times> string option) list" where
  "required_group_attrs = [(''role'', Some ''group''), (''tabindex'', Some ''0''), (''aria-label'', None)]"

definition check_group_attr ::
    "element \<Rightarrow> string \<Rightarrow> string \<times> string option \<Rightarrow> validator \<Rightarrow> validator" where
  "check_group_attr grp group_id p st =
     (let attr = fst p; expected_value = snd p in
      case get_attr grp attr of
        None \<Rightarrow> add_error (''Semantic group '' @ quoted group_id
                            @ '' missing required attribute: '' @ attr) st
      | Some actual_value \<Rightarrow>
          (case expected_value of
             None \<Rightarrow> st
           | Some ev \<Rightarrow>
               if ev \<noteq> [] \<and> actual_value \<noteq> ev
               then add_error (''Semantic group '' @ quoted group_id @ '' attribute ''
                               @ quoted attr @ '': expected '' @ quoted ev
                               @ '', found '' @ quoted actual_value) st
               else st))"

definition group_label :: "nat \<Rightarrow> element \<Rightarrow> string" where
  "group_label i grp =
     (case get_attr grp ''id'' of
        Some v \<Rightarrow> v
      | None \<Rightarrow> ''(unnamed group '' @ nat_str i @ '')'')"

definition check_group :: "nat \<times> element \<Rightarrow> validator \<Rightarrow> validator" where
  "check_group p st =
     (let i = fst p; grp = snd p;
          group_id = group_label i grp;
          data_concept = get_attr grp ''data-concept'';
          st1 = (if data_concept = None \<and> get_attr grp ''role'' = Some ''group''
                 then add_warning (''Group '' @ quoted group_id @ '' has role=''
                                   @ quoted ''group'' @ '' but no data-concept attribute'') st
                 else st)
      in if \<not> attr_falsy data_concept
         then fold (check_group_attr grp group_id) required_group_attrs st1
         else st1)"

definition check_semantic_groups_on :: "element \<Rightarrow> validator \<Rightarrow> validator" where
  "check_semantic_groups_on r st =
     (let groups = find_groups r in
      if groups = []
      then add_warning ''No <g> elements found; semantic grouping recommended'' st
      else fold check_group (enumerate 0 groups) st)"

definition check_semantic_groups :: stage where
  "check_semantic_groups = with_root ''findall'' (\<lambda>r st. ok (check_semantic_groups_on r st))"

text \<open>
  \<open>_check_concept_group_correspondence\<close>. \<open>group_ids\<close> is the set comprehension
  \<open>{g.get('id') for g in groups if g.get('id')}\<close>, kept as a list and read with \<open>set\<close>.
\<close>

definition group_ids :: "element \<Rightarrow> string list" where
  "group_ids r =
     concat (map (\<lambda>g. case get_attr g ''id'' of
                         None \<Rightarrow> []
                       | Some i \<Rightarrow> if i = [] then [] else [i]) (find_groups r))"

definition check_concept :: "(json \<Rightarrow> string) \<Rightarrow> string list \<Rightarrow> json \<Rightarrow> stage" where
  "check_concept rp ids c st =
     (case c of
        JObj concept \<Rightarrow>
          (let concept_id = dict_get concept ''id'' JNull;
               is_implicit = dict_get concept ''implicit'' (JBool False)
           in if truthy is_implicit
              then ok (if truthy concept_id
                       then add_warning (''Concept '' @ quoted (py_str rp concept_id)
                              @ '' is marked as implicit but has an '' @ quoted ''id''
                              @ '' field. Implicit concepts typically don'' @ q
                              @ ''t have corresponding SVG groups.'') st
                       else st)
              else if \<not> truthy concept_id
              then ok (add_error (''Concept with role ''
                         @ quoted (py_str rp (dict_get concept ''role'' (JStr ''unknown'')))
                         @ '' is not marked as implicit but has no '' @ quoted ''id''
                         @ '' field'') st)
              else (case py_in_set concept_id ids of
                      Inl e \<Rightarrow> raise (Other e) st
                    | Inr present \<Rightarrow>
                        ok (if \<not> present
                            then add_error (''Metadata concept '' @ quoted (py_str rp concept_id)
                                   @ '' has no corresponding <g> element in the SVG'') st
                            else st)))
      | _ \<Rightarrow> raise (Other (NoAttribute (pytype_of c) ''get'')) st)"

definition check_concept_group_correspondence_on :: "env \<Rightarrow> element \<Rightarrow> stage" where
  "check_concept_group_correspondence_on env r st =
     (case py_getitem (metadata st) ''concepts'' of
        Inl e \<Rightarrow> raise (Other e) st
      | Inr cs \<Rightarrow>
          (case py_iter cs of
             Inl e \<Rightarrow> raise (Other e) st
           | Inr items \<Rightarrow> for_each (check_concept (py_repr env) (group_ids r)) items st))"

definition check_concept_group_correspondence :: "env \<Rightarrow> stage" where
  "check_concept_group_correspondence env st =
     (if \<not> truthy (metadata st) then ok st
      else case py_in ''concepts'' (metadata st) of
             Inl e \<Rightarrow> raise (Other e) st
           | Inr present \<Rightarrow>
               if \<not> present then ok st
               else with_root ''findall'' (check_concept_group_correspondence_on env) st)"

subsection \<open>The entry point\<close>

text \<open>The body of the \<open>try\<close> block of \<open>validate\<close>.\<close>

definition pipeline :: "env \<Rightarrow> stage" where
  "pipeline env =
     seq (parse_svg env)
    (seq check_root_attributes
    (seq check_title_and_desc
    (seq (extract_and_validate_metadata env)
    (seq check_embedded_stylesheet
    (seq check_semantic_groups
         (check_concept_group_correspondence env))))))"

text \<open>
  The two \<open>except\<close> clauses: a \<open>ValidationError\<close> is recorded with its own text, any other
  exception behind the prefix \<open>Unexpected error\<close>.
\<close>

definition exn_message :: "env \<Rightarrow> exn \<Rightarrow> string" where
  "exn_message env e =
     (case e of
        ValidationError m \<Rightarrow> m
      | Other x \<Rightarrow> ''Unexpected error: '' @ err_str env x)"

definition handle :: "env \<Rightarrow> exn option \<times> validator \<Rightarrow> validator" where
  "handle env res =
     (case res of
        (None, st) \<Rightarrow> st
      | (Some e, st) \<Rightarrow> add_error (exn_message env e) st)"

text \<open>
  \<open>validate\<close>: the returned triple \<open>(is_valid, errors, warnings)\<close> and the object after the
  call.
\<close>

definition validate :: "env \<Rightarrow> validator \<Rightarrow> (bool \<times> string list \<times> string list) \<times> validator" where
  "validate env st =
     (let st0 = st\<lparr>errors := [], warnings := []\<rparr>;
          st1 = handle env (pipeline env st0)
      in ((errors st1 = [], errors st1, warnings st1), st1))"

definition is_valid :: "(bool \<times> string list \<times> string list) \<times> validator \<Rightarrow> bool" where
  "is_valid res = fst (fst res)"

definition result_errors :: "(bool \<times> string list \<times> string list) \<times> validator \<Rightarrow> string list" where
  "result_errors res = fst (snd (fst res))"

definition result_warnings :: "(bool \<times> string list \<times> string list) \<times> validator \<Rightarrow> string list" where
  "result_warnings res = snd (snd (fst res))"

subsection \<open>Notions used in the statements and proofs\<close>

text \<open>Appending findings to the two sequences, everything else unchanged.\<close>

definition emit :: "string list \<Rightarrow> string list \<Rightarrow> validator \<Rightarrow> validator" where
  "emit es ws st = st\<lparr>errors := errors st @ es, warnings := warnings st @ ws\<rparr>"

text \<open>A check that does nothing but append a fixed list of findings.\<close>

definition reports_only :: "(validator \<Rightarrow> validator) \<Rightarrow> bool" where
  "reports_only f = (\<exists>es ws. \<forall>st. f st = emit es ws st)"

text \<open>
  The second object is the first with findings appended; \<open>self.metadata\<close> may differ,
  \<open>self.root\<close> may not.
\<close>

definition extends :: "validator \<Rightarrow> validator \<Rightarrow> bool" where
  "extends st st' =
     (root st' = root st \<and> (\<exists>es. errors st' = errors st @ es)
      \<and> (\<exists>ws. warnings st' = warnings st @ ws))"

definition growing :: "stage \<Rightarrow> bool" where
  "growing f = (\<forall>st. extends st (snd (f st)))"

text \<open>The two checks that run before the metadata is looked at.\<close>

definition early_checks :: "element \<Rightarrow> validator \<Rightarrow> validator" where
  "early_checks r st = check_title_and_desc_on r (check_root_attributes_on r st)"

text \<open>The root tag that \<open>_parse_svg\<close> accepts.\<close>

definition svg_root :: "element \<Rightarrow> bool" where
  "svg_root r = (tag r = ns_tag ''svg'' \<or> tag r = ''svg'')"

text \<open>A stage that leaves \<open>self.metadata\<close> as it is.\<close>

definition keeps_metadata :: "stage \<Rightarrow> bool" where
  "keeps_metadata f = (\<forall>st. metadata (snd (f st)) = metadata st)"

text \<open>
  The concept entries of a decoded metadata block, and the identifiers of those that
  are not implicit (\<open>None\<close> for an entry without identifier).
\<close>

definition concepts_of :: "json \<Rightarrow> json list" where
  "concepts_of v =
     (case v of
        JObj kvs \<Rightarrow> (case map_of kvs ''concepts'' of Some (JArr cs) \<Rightarrow> cs | _ \<Rightarrow> [])
      | _ \<Rightarrow> [])"

fun explicit_id :: "json \<Rightarrow> json list" where
  "explicit_id (JObj concept) =
     (if truthy (dict_get concept ''implicit'' (JBool False)) then []
      else [dict_get concept ''id'' JNull])"
| "explicit_id v = []"

definition explicit_ids :: "json \<Rightarrow> json list" where
  "explicit_ids v = concat (map explicit_id (concepts_of v))"

text \<open>
  The entries at which the loop of \<open>_check_concept_group_correspondence\<close> raises: an
  entry that is not a dict (it has no \<open>get\<close>), and a dict that is not implicit and whose
  identifier is a non-empty list or dict (it cannot be hashed for the set membership).
\<close>

fun hashable :: "json \<Rightarrow> bool" where
  "hashable (JArr xs) = False"
| "hashable (JObj kvs) = False"
| "hashable v = True"

fun aborts :: "json \<Rightarrow> bool" where
  "aborts (JObj concept) =
     (\<not> truthy (dict_get concept ''implicit'' (JBool False))
      \<and> truthy (dict_get concept ''id'' JNull)
      \<and> \<not> hashable (dict_get concept ''id'' JNull))"
| "aborts v = True"

text \<open>
  The environments in which \<open>_validate_metadata_basic\<close> is called once the payload is
  decoded: \<open>jsonschema\<close> is not installed, or the schema file does not exist, or it
  cannot be opened and decoded.
\<close>

definition basic_runs :: "env \<Rightarrow> bool" where
  "basic_runs env =
     (\<not> jsonschema_available env \<or> \<not> schema_exists env \<or> isl (load_schema env))"

subsection \<open>Example documents\<close>

text \<open>
  An environment without \<open>jsonschema\<close>, in which the parser returns \<open>p\<close> and the decoder
  returns \<open>l\<close> (exceptions are described by short stand-in texts); \<open>full_env\<close> is the same with \<open>jsonschema\<close> installed and a schema that
  accepts every instance.
\<close>

definition example_err_str :: "pyerr \<Rightarrow> string" where
  "example_err_str e =
     (case e of
        LibraryError m \<Rightarrow> m
      | Unhashable t \<Rightarrow> ''unhashable type''
      | NoAttribute t a \<Rightarrow> ''object has no attribute '' @ a
      | _ \<Rightarrow> ''wrong type'')"

definition example_env :: "parse_outcome \<Rightarrow> loads_outcome \<Rightarrow> env" where
  "example_env p l =
     \<lparr>svg_path = ''bed.svg'', schema_path = ''metadata.schema.json'', et_parse = p,
      json_loads = (\<lambda>t. l), jsonschema_available = False, schema_exists = False,
      load_schema = Inl ''unreadable'', jsonschema_validate = (\<lambda>i s. Conforms),
      py_repr = (\<lambda>v. ''repr''), err_str = example_err_str\<rparr>"

definition full_env :: "parse_outcome \<Rightarrow> loads_outcome \<Rightarrow> env" where
  "full_env p l =
     (example_env p l)\<lparr>jsonschema_available := True, schema_exists := True,
                        load_schema := Inr (JObj [])\<rparr>"

text \<open>\<open>jsonschema\<close> installed, the schema file missing.\<close>

definition fallback_env :: "parse_outcome \<Rightarrow> loads_outcome \<Rightarrow> env" where
  "fallback_env p l = (example_env p l)\<lparr>jsonschema_available := True\<rparr>"

definition svg_doc :: "element list \<Rightarrow> element" where
  "svg_doc kids =
     Element (ns_tag ''svg'') [(''role'', ''img''), (''aria-labelledby'', ''t d'')] None kids"

definition title_elem :: element where
  "title_elem = Element (ns_tag ''title'') [(''id'', ''t'')] (Some ''Bed'') []"

definition desc_elem :: element where
  "desc_elem = Element (ns_tag ''desc'') [(''id'', ''d'')] (Some ''A bed'') []"

definition metadata_elem :: element where
  "metadata_elem =
     Element (ns_tag ''metadata'') [(''id'', ''mf-accessibility'')] (Some ''{...}'') []"

definition bed_group :: element where
  "bed_group =
     Element (ns_tag ''g'')
       [(''id'', ''bed''), (''data-concept'', ''bed''), (''role'', ''group''),
        (''tabindex'', ''0''), (''aria-label'', ''bed'')] None []"

definition bed_concept :: json where
  "bed_concept = JObj [(''role'', JStr ''theme''), (''label'', JStr ''bed''), (''id'', JStr ''bed'')]"

definition metadata_with :: "json list \<Rightarrow> (string \<times> json) list" where
  "metadata_with cs =
     [(''version'', JStr ''1.0''), (''utterance'', JStr ''bed''), (''nsm'', JObj []),
      (''concepts'', JArr cs), (''provenance'', JObj [])]"

text \<open>The end-to-end scenario: one group and one concept, both \<open>bed\<close>.\<close>

definition bed_doc :: element where
  "bed_doc = svg_doc [title_elem, desc_elem, metadata_elem, bed_group]"

text \<open>A group that names a concept and has none of the three required attributes.\<close>

definition bare_group :: element where
  "bare_group = Element (ns_tag ''g'') [(''id'', ''foo''), (''data-concept'', ''foo'')] None []"

text \<open>A document without a metadata element, and one with it, whose only group is \<open>bare_group\<close>.\<close>

definition no_metadata_doc :: element where
  "no_metadata_doc = svg_doc [title_elem, desc_elem, bare_group]"

definition bare_doc :: element where
  "bare_doc = svg_doc [title_elem, desc_elem, metadata_elem, bare_group]"

text \<open>A document whose metadata element holds two spaces and has no \<open>id\<close>.\<close>

definition blank_metadata_elem :: element where
  "blank_metadata_elem = Element (ns_tag ''metadata'') [] (Some ''  '') []"

definition blank_metadata_doc :: element where
  "blank_metadata_doc = svg_doc [title_elem, desc_elem, blank_metadata_elem, bare_group]"

text \<open>
  Three groups: an empty \<open>data-concept\<close> and nothing else; every attribute present but an
  empty \<open>aria-label\<close>; a group outside the SVG namespace (\<open>xmlns=""\<close>) next to the
  namespaced ones.
\<close>

definition empty_concept_group :: element where
  "empty_concept_group = Element (ns_tag ''g'') [(''data-concept'', [])] None []"

definition unlabelled_group :: element where
  "unlabelled_group =
     Element (ns_tag ''g'')
       [(''id'', ''foo''), (''data-concept'', ''foo''), (''role'', ''group''),
        (''tabindex'', ''0''), (''aria-label'', [])] None []"

definition plain_group :: element where
  "plain_group = Element ''g'' [(''id'', ''bar''), (''data-concept'', ''bar'')] None []"

definition lax_doc :: element where
  "lax_doc =
     svg_doc [title_elem, desc_elem, metadata_elem,
              empty_concept_group, unlabelled_group, plain_group]"

text \<open>
  A group without \<open>id\<close> whose role and tabindex are not the expected ones, in a document
  where it is the second group.
\<close>

definition unnamed_group :: element where
  "unnamed_group =
     Element (ns_tag ''g'')
       [(''data-concept'', ''bed''), (''role'', ''button''), (''tabindex'', ''1''),
        (''aria-label'', ''bed'')] None []"

definition unnamed_doc :: element where
  "unnamed_doc = svg_doc [title_elem, desc_elem, metadata_elem, bed_group, unnamed_group]"

definition foo_concept :: json where
  "foo_concept = JObj [(''role'', JStr ''theme''), (''label'', JStr ''foo''), (''id'', JStr ''foo'')]"

text \<open>
  Concept entries: an identifier that is a list; an implicit concept with an identifier,
  and one whose identifier is the empty string;
  a concept without identifier; a concept whose identifier no group carries.
\<close>

definition list_id_concept :: json where
  "list_id_concept =
     JObj [(''role'', JStr ''theme''), (''label'', JStr ''x''), (''id'', JArr [JStr ''x''])]"

definition ghost_concept :: json where
  "ghost_concept =
     JObj [(''role'', JStr ''agent''), (''label'', JStr ''someone''),
           (''implicit'', JBool True), (''id'', JStr ''ghost'')]"

definition blank_ghost_concept :: json where
  "blank_ghost_concept =
     JObj [(''role'', JStr ''agent''), (''label'', JStr ''someone''),
           (''implicit'', JBool True), (''id'', JStr [])]"

definition anonymous_concept :: json where
  "anonymous_concept = JObj [(''role'', JStr ''place''), (''label'', JStr ''room'')]"

definition chair_concept :: json where
  "chair_concept =
     JObj [(''role'', JStr ''theme''), (''label'', JStr ''chair''), (''id'', JStr ''chair'')]"

section \<open>Auxiliary facts\<close>

subsection \<open>Checks that only append findings\<close>

text \<open>
  The checks that cannot raise change nothing but the two sequences, and what they append
  does not depend on the object they start from.
\<close>

lemma emit_fields [simp]:
  "root (emit es ws st) = root st" "metadata (emit es ws st) = metadata st"
  "errors (emit es ws st) = errors st @ es" "warnings (emit es ws st) = warnings st @ ws"
  by (simp_all add: emit_def)

lemma emit_emit: "emit es' ws' (emit es ws st) = emit (es @ es') (ws @ ws') st"
  by (simp add: emit_def)

lemma emit_nil: "emit [] [] st = st"
  by (simp add: emit_def)

lemma add_error_emit: "add_error m st = emit [m] [] st"
  by (simp add: add_error_def emit_def)

lemma add_warning_emit: "add_warning m st = emit [] [m] st"
  by (simp add: add_warning_def emit_def)

lemma reports_onlyI: "(\<And>st. f st = emit es ws st) \<Longrightarrow> reports_only f"
  unfolding reports_only_def by blast

lemma reports_only_init:
  assumes "reports_only f"
  shows "f st = emit (errors (f init)) (warnings (f init)) st"
proof -
  from assms obtain es ws where f: "\<And>s. f s = emit es ws s"
    unfolding reports_only_def by blast
  show ?thesis by (simp add: f init_def)
qed

lemma reports_only_comp:
  assumes "reports_only f" and "reports_only g"
  shows "reports_only (\<lambda>st. g (f st))"
proof -
  from assms obtain es ws es' ws' where
    f: "\<And>st. f st = emit es ws st" and g: "\<And>st. g st = emit es' ws' st"
    unfolding reports_only_def by blast
  show ?thesis
    by (rule reports_onlyI [of _ "es @ es'" "ws @ ws'"]) (simp add: f g emit_emit)
qed

lemma reports_only_fold:
  assumes "\<And>x. reports_only (f x)"
  shows "reports_only (fold f xs)"
proof (induction xs)
  case Nil
  show ?case by (rule reports_onlyI [of _ "[]" "[]"]) (simp add: emit_nil)
next
  case (Cons x xs)
  have "reports_only (\<lambda>st. fold f xs (f x st))"
    by (rule reports_only_comp [OF assms Cons.IH])
  then show ?case by (simp add: comp_def)
qed

lemma ro_check_root_attr: "reports_only (check_root_attr r p)"
  by (rule reports_onlyI [of _ "errors (check_root_attr r p init)" "warnings (check_root_attr r p init)"])
     (simp add: check_root_attr_def add_error_def emit_def init_def Let_def split: option.splits)

lemma ro_check_root_attributes_on: "reports_only (check_root_attributes_on r)"
proof -
  have 1: "reports_only (fold (check_root_attr r) required_root_attrs)"
    by (rule reports_only_fold) (rule ro_check_root_attr)
  have 2: "reports_only (\<lambda>st. if map_of (attrib r) ''xmlns'' = None \<and> \<not> contains svg_ns (tag r)
      then add_warning ''SVG namespace not explicitly declared'' st else st)"
    by (rule reports_onlyI [of _ "[]" "if map_of (attrib r) ''xmlns'' = None \<and> \<not> contains svg_ns (tag r) then [''SVG namespace not explicitly declared''] else []"])
       (simp add: add_warning_def emit_def)
  have eq: "check_root_attributes_on r =
      (\<lambda>st. (\<lambda>st. if map_of (attrib r) ''xmlns'' = None \<and> \<not> contains svg_ns (tag r)
      then add_warning ''SVG namespace not explicitly declared'' st else st)
        (fold (check_root_attr r) required_root_attrs st))"
    by (rule ext) (simp add: check_root_attributes_on_def Let_def)
  show ?thesis unfolding eq by (rule reports_only_comp [OF 1 2])
qed

lemma ro_check_text_element: "reports_only (check_text_element name found)"
  by (rule reports_onlyI [of _ "errors (check_text_element name found init)" "warnings (check_text_element name found init)"])
     (simp add: check_text_element_def add_error_def add_warning_def emit_def init_def Let_def split: option.splits)

lemma ro_check_title_and_desc_on: "reports_only (check_title_and_desc_on r)"
proof -
  have eq: "check_title_and_desc_on r =
      (\<lambda>st. check_text_element ''desc'' (find_svg ''desc'' r)
               (check_text_element ''title'' (find_svg ''title'' r) st))"
    by (rule ext) (simp add: check_title_and_desc_on_def Let_def)
  show ?thesis unfolding eq
    by (rule reports_only_comp [OF ro_check_text_element ro_check_text_element])
qed

lemma ro_early_checks: "reports_only (early_checks r)"
proof -
  have eq: "early_checks r = (\<lambda>st. check_title_and_desc_on r (check_root_attributes_on r st))"
    by (rule ext) (simp add: early_checks_def)
  show ?thesis unfolding eq
    by (rule reports_only_comp [OF ro_check_root_attributes_on ro_check_title_and_desc_on])
qed

lemma ro_check_metadata_id: "reports_only (check_metadata_id m)"
  by (rule reports_onlyI [of _ "errors (check_metadata_id m init)" "warnings (check_metadata_id m init)"])
     (simp add: check_metadata_id_def add_warning_def emit_def init_def Let_def)

lemma ro_check_embedded_stylesheet_on: "reports_only (check_embedded_stylesheet_on r)"
  by (rule reports_onlyI [of _ "errors (check_embedded_stylesheet_on r init)" "warnings (check_embedded_stylesheet_on r init)"])
     (simp add: check_embedded_stylesheet_on_def add_warning_def emit_def init_def Let_def split: option.splits)

lemma ro_check_group_attr: "reports_only (check_group_attr g gid p)"
  by (rule reports_onlyI [of _ "errors (check_group_attr g gid p init)" "warnings (check_group_attr g gid p init)"])
     (simp add: check_group_attr_def add_error_def emit_def init_def Let_def split: option.splits)

lemma ro_check_group: "reports_only (check_group p)"
proof -
  let ?g = "snd p" and ?l = "group_label (fst p) (snd p)"
  have 1: "reports_only (\<lambda>st. if get_attr ?g ''data-concept'' = None \<and> get_attr ?g ''role'' = Some ''group''
                 then add_warning (''Group '' @ quoted ?l @ '' has role=''
                                   @ quoted ''group'' @ '' but no data-concept attribute'') st
                 else st)" (is "reports_only ?f")
    by (rule reports_onlyI [of _ "errors (?f init)" "warnings (?f init)"])
       (simp add: add_warning_def emit_def init_def)
  have 2: "reports_only (\<lambda>st. if \<not> attr_falsy (get_attr ?g ''data-concept'')
         then fold (check_group_attr ?g ?l) required_group_attrs st else st)"
  proof (cases "attr_falsy (get_attr ?g ''data-concept'')")
    case True
    then show ?thesis by (simp add: reports_onlyI [of _ "[]" "[]"] emit_nil)
  next
    case False
    then show ?thesis using reports_only_fold [of "check_group_attr ?g ?l", OF ro_check_group_attr]
      by simp
  qed
  have eq: "check_group p = (\<lambda>st.
      (\<lambda>st. if \<not> attr_falsy (get_attr ?g ''data-concept'')
         then fold (check_group_attr ?g ?l) required_group_attrs st else st)
      ((\<lambda>st. if get_attr ?g ''data-concept'' = None \<and> get_attr ?g ''role'' = Some ''group''
                 then add_warning (''Group '' @ quoted ?l @ '' has role=''
                                   @ quoted ''group'' @ '' but no data-concept attribute'') st
                 else st) st))"
    by (rule ext) (simp add: check_group_def Let_def)
  show ?thesis unfolding eq by (rule reports_only_comp [OF 1 2])
qed

lemma ro_check_semantic_groups_on: "reports_only (check_semantic_groups_on r)"
proof (cases "find_groups r = []")
  case True
  then have eq: "check_semantic_groups_on r =
      add_warning ''No <g> elements found; semantic grouping recommended''"
    by (intro ext) (simp add: check_semantic_groups_on_def Let_def)
  show ?thesis unfolding eq by (rule reports_onlyI) (rule add_warning_emit)
next
  case False
  then have eq: "check_semantic_groups_on r = fold check_group (enumerate 0 (find_groups r))"
    by (intro ext) (simp add: check_semantic_groups_on_def Let_def)
  show ?thesis unfolding eq by (rule reports_only_fold) (rule ro_check_group)
qed

subsection \<open>Stages\<close>

text \<open>
  Sequencing, and the fact that no method removes a finding or changes \<open>self.root\<close>
  once the document is parsed.
\<close>

lemma seq_pure [simp]: "seq (\<lambda>s. ok (f s)) g st = g (f st)"
  by (simp add: seq_def ok_def)

lemma seq_ok [simp]: "seq ok g st = g st"
  by (simp add: seq_def ok_def)

lemma seq_raise [simp]: "seq (raise e) g st = (Some e, st)"
  by (simp add: seq_def raise_def)

lemma seq_None: "f st = (None, st') \<Longrightarrow> seq f g st = g st'"
  by (simp add: seq_def)

lemma seq_Some: "f st = (Some e, st') \<Longrightarrow> seq f g st = (Some e, st')"
  by (simp add: seq_def)

lemma with_root_Some: "root st = Some r \<Longrightarrow> with_root a f st = f r st"
  by (simp add: with_root_def)

lemma for_each_append:
  "for_each body (xs @ ys) st = seq (for_each body xs) (for_each body ys) st"
proof (induction xs arbitrary: st)
  case Nil
  show ?case by simp
next
  case (Cons x xs)
  show ?case
    by (cases "body x st") (auto simp: seq_def Cons.IH split: option.splits)
qed

lemma extends_refl: "extends st st"
  by (simp add: extends_def)

lemma extends_trans: "extends a b \<Longrightarrow> extends b c \<Longrightarrow> extends a c"
  by (auto simp: extends_def)

lemma extends_emit: "extends st (emit es ws st)"
  by (simp add: extends_def)

lemma extends_add_error: "extends st (add_error m st)"
  by (simp add: add_error_emit extends_emit)

lemma extends_add_warning: "extends st (add_warning m st)"
  by (simp add: add_warning_emit extends_emit)

lemma extends_metadata: "extends st (st\<lparr>metadata := v\<rparr>)"
  by (simp add: extends_def)

lemma extends_errors: "extends st st' \<Longrightarrow> m \<in> set (errors st) \<Longrightarrow> m \<in> set (errors st')"
  by (auto simp: extends_def)

lemma extends_warnings: "extends st st' \<Longrightarrow> m \<in> set (warnings st) \<Longrightarrow> m \<in> set (warnings st')"
  by (auto simp: extends_def)

lemma extends_no_errors: "extends st st' \<Longrightarrow> errors st' = [] \<Longrightarrow> errors st = []"
  by (auto simp: extends_def)

lemma extends_root: "extends st st' \<Longrightarrow> root st' = root st"
  by (simp add: extends_def)

lemma growingI: "(\<And>st. extends st (snd (f st))) \<Longrightarrow> growing f"
  by (simp add: growing_def)

lemma growingD: "growing f \<Longrightarrow> f st = (x, st') \<Longrightarrow> extends st st'"
  by (auto simp: growing_def dest: spec [of _ st])

lemma growing_ok: "growing ok"
  by (simp add: growing_def ok_def extends_refl)

lemma growing_raise: "growing (raise e)"
  by (simp add: growing_def raise_def extends_refl)

lemma growing_pure: "reports_only f \<Longrightarrow> growing (\<lambda>s. ok (f s))"
  by (auto simp: growing_def ok_def reports_only_def extends_emit)

lemma growing_seq:
  assumes "growing f" and "growing g"
  shows "growing (seq f g)"
proof (rule growingI)
  fix st
  obtain x s1 where f: "f st = (x, s1)" by (cases "f st")
  have e1: "extends st s1" by (rule growingD [OF assms(1) f])
  show "extends st (snd (seq f g st))"
  proof (cases x)
    case None
    obtain y s2 where g: "g s1 = (y, s2)" by (cases "g s1")
    have "extends s1 s2" by (rule growingD [OF assms(2) g])
    with e1 have "extends st s2" by (rule extends_trans)
    then show ?thesis using f g None by (simp add: seq_def)
  next
    case (Some e)
    then show ?thesis using f e1 by (simp add: seq_def)
  qed
qed

lemma growing_for_each:
  assumes "\<And>x. growing (body x)"
  shows "growing (for_each body xs)"
proof (induction xs)
  case Nil
  have "for_each body [] = ok" by (rule ext) simp
  then show ?case by (simp add: growing_ok)
next
  case (Cons x xs)
  have "for_each body (x # xs) = seq (body x) (for_each body xs)" by (rule ext) simp
  then show ?case using growing_seq [OF assms Cons.IH] by simp
qed

lemma growing_with_root:
  assumes "\<And>r. growing (f r)"
  shows "growing (with_root a f)"
proof (rule growingI)
  fix st
  show "extends st (snd (with_root a f st))"
  proof (cases "root st")
    case None
    then show ?thesis by (simp add: with_root_def raise_def extends_refl)
  next
    case (Some r)
    obtain x s where "f r st = (x, s)" by (cases "f r st")
    then show ?thesis using growingD [OF assms] Some by (simp add: with_root_def)
  qed
qed

lemma growing_check_required_field: "growing (check_required_field f)"
  by (rule growingI)
     (simp add: check_required_field_def raise_def ok_def extends_refl extends_add_error
           split: sum.splits)

lemma ro_check_concept_basic: "reports_only (check_concept_basic rp p)"
  by (rule reports_onlyI [of _ "errors (check_concept_basic rp p init)" "warnings (check_concept_basic rp p init)"])
     (simp add: check_concept_basic_def add_error_def emit_def init_def Let_def split: json.splits)

lemma growing_check_concepts_basic: "growing (check_concepts_basic rp)"
proof (rule growingI)
  fix st
  have "extends st (fold (check_concept_basic rp) xs st)" for xs
    using reports_only_fold [of "check_concept_basic rp" xs, OF ro_check_concept_basic]
    by (auto simp: reports_only_def extends_emit)
  then show "extends st (snd (check_concepts_basic rp st))"
    by (simp add: check_concepts_basic_def raise_def ok_def extends_refl extends_add_error
           split: sum.splits json.splits bool.splits)
qed

lemma growing_validate_metadata_basic: "growing (validate_metadata_basic env)"
  unfolding validate_metadata_basic_def
  by (intro growing_seq growing_for_each growing_check_required_field growing_check_concepts_basic)

lemma growing_after: "growing f \<Longrightarrow> extends st s \<Longrightarrow> extends st (snd (f s))"
  by (metis extends_trans growingD prod.collapse)

lemma growing_validate_metadata_schema: "growing (validate_metadata_schema env)"
  by (rule growingI)
     (simp add: validate_metadata_schema_def ok_def extends_refl extends_add_error
           growing_after [OF growing_validate_metadata_basic] extends_add_warning
           split: sum.splits schema_outcome.splits)

lemma growing_extract_and_validate_metadata_on:
  "growing (extract_and_validate_metadata_on env r)"
proof (rule growingI)
  fix st
  have 1: "extends st (check_metadata_id m st)" for m
    using ro_check_metadata_id [of m] by (auto simp: reports_only_def extends_emit)
  have 2: "extends st ((check_metadata_id m st)\<lparr>metadata := v\<rparr>)" for m v
    by (rule extends_trans [OF 1 extends_metadata])
  have 3: "extends st (add_warning w ((check_metadata_id m st)\<lparr>metadata := v\<rparr>))" for m v w
    by (rule extends_trans [OF 2 extends_add_warning])
  show "extends st (snd (extract_and_validate_metadata_on env r st))"
    by (simp add: extract_and_validate_metadata_on_def Let_def raise_def extends_refl 1
          growing_after [OF growing_validate_metadata_basic 3]
          growing_after [OF growing_validate_metadata_schema 2]
        split: option.splits loads_outcome.splits)
qed

lemma growing_check_concept: "growing (check_concept rp ids c)"
  by (rule growingI)
     (simp add: check_concept_def Let_def raise_def ok_def extends_refl extends_add_error
           extends_add_warning split: json.splits sum.splits)

lemma growing_check_concept_group_correspondence:
  "growing (check_concept_group_correspondence env)"
proof (rule growingI)
  fix st
  have "extends st (snd (for_each (check_concept rp ids) items st))" for rp ids items
    using growing_for_each [of "check_concept rp ids" items, OF growing_check_concept]
    by (simp add: growing_def)
  then have "extends st (snd (check_concept_group_correspondence_on env r st))" for r
    by (simp add: check_concept_group_correspondence_on_def raise_def extends_refl
          split: sum.splits)
  then show "extends st (snd (check_concept_group_correspondence env st))"
    by (simp add: check_concept_group_correspondence_def with_root_def ok_def raise_def
          extends_refl split: sum.splits option.splits)
qed

subsection \<open>The run, stage by stage\<close>

text \<open>
  What \<open>pipeline\<close> is for each outcome of the parser, and, for a parsed document,
  according to whether the metadata stage raises or returns.
\<close>

lemma early_checks_emit:
  "early_checks r st = emit (errors (early_checks r init)) (warnings (early_checks r init)) st"
  by (rule reports_only_init [OF ro_early_checks])

lemma early_checks_root [simp]: "root (early_checks r st) = root st"
  by (subst early_checks_emit) simp

lemma check_metadata_id_emit:
  "check_metadata_id m st =
     emit [] (warnings (check_metadata_id m init)) st"
  by (simp add: check_metadata_id_def add_warning_def emit_def init_def Let_def)

lemma late_emit:
  "check_embedded_stylesheet_on r st =
     emit (errors (check_embedded_stylesheet_on r init)) (warnings (check_embedded_stylesheet_on r init)) st"
  "check_semantic_groups_on r st =
     emit (errors (check_semantic_groups_on r init)) (warnings (check_semantic_groups_on r init)) st"
  by (rule reports_only_init [OF ro_check_embedded_stylesheet_on])
     (rule reports_only_init [OF ro_check_semantic_groups_on])

lemma late_fields [simp]:
  "root (check_embedded_stylesheet_on r st) = root st"
  "metadata (check_embedded_stylesheet_on r st) = metadata st"
  "root (check_semantic_groups_on r st) = root st"
  "metadata (check_semantic_groups_on r st) = metadata st"
  by (subst late_emit, simp)+

lemma pipeline_unparsed:
  "et_parse env = ParseError m \<Longrightarrow>
     pipeline env st = (Some (ValidationError (''XML parsing error: '' @ m)), st)"
  "et_parse env = FileNotFound \<Longrightarrow>
     pipeline env st = (Some (ValidationError (''File not found: '' @ svg_path env)), st)"
  "et_parse env = ParseRaised m \<Longrightarrow> pipeline env st = (Some (Other (LibraryError m)), st)"
  "et_parse env = Parsed r \<Longrightarrow> \<not> svg_root r \<Longrightarrow>
     pipeline env st =
       (Some (ValidationError (''Root element must be <svg>, found: '' @ tag r)),
        st\<lparr>root := Some r\<rparr>)"
  by (simp_all add: pipeline_def parse_svg_def seq_def raise_def with_root_def svg_root_def)

lemma pipeline_parsed:
  assumes "et_parse env = Parsed r" and "svg_root r"
  shows "pipeline env st =
           seq (extract_and_validate_metadata_on env r)
          (seq check_embedded_stylesheet
          (seq check_semantic_groups (check_concept_group_correspondence env)))
            (early_checks r (st\<lparr>root := Some r\<rparr>))"
proof -
  have p: "parse_svg env st = (None, st\<lparr>root := Some r\<rparr>)"
    using assms by (auto simp: parse_svg_def with_root_def svg_root_def ok_def)
  have a: "check_root_attributes (st\<lparr>root := Some r\<rparr>) =
             (None, check_root_attributes_on r (st\<lparr>root := Some r\<rparr>))"
    by (simp add: check_root_attributes_def with_root_def ok_def)
  have r1: "root (check_root_attributes_on r (st\<lparr>root := Some r\<rparr>)) = Some r"
    by (subst reports_only_init [OF ro_check_root_attributes_on]) simp
  have b: "check_title_and_desc (check_root_attributes_on r (st\<lparr>root := Some r\<rparr>)) =
             (None, early_checks r (st\<lparr>root := Some r\<rparr>))"
    using r1 by (simp add: check_title_and_desc_def with_root_def ok_def early_checks_def)
  have r2: "root (early_checks r (st\<lparr>root := Some r\<rparr>)) = Some r" by simp
  show ?thesis
    unfolding pipeline_def
    by (simp add: seq_def [of "parse_svg env"] seq_def [of check_root_attributes]
          seq_def [of check_title_and_desc] p a b
          seq_def [of "with_root ''find'' (extract_and_validate_metadata_on env)"]
          seq_def [of "extract_and_validate_metadata_on env r"]
          extract_and_validate_metadata_def [of env] with_root_Some [OF r2])
qed

lemma pipeline_metadata_raises:
  assumes "et_parse env = Parsed r" and "svg_root r"
    and "extract_and_validate_metadata_on env r (early_checks r (st\<lparr>root := Some r\<rparr>)) = (Some e, s)"
  shows "pipeline env st = (Some e, s)"
  by (simp add: pipeline_parsed [OF assms(1,2)] seq_def [of "extract_and_validate_metadata_on env r"] assms(3))

lemma pipeline_after_metadata:
  assumes "et_parse env = Parsed r" and "svg_root r"
    and m: "extract_and_validate_metadata_on env r (early_checks r (st\<lparr>root := Some r\<rparr>)) = (None, s)"
  shows "pipeline env st =
           check_concept_group_correspondence env
             (check_semantic_groups_on r (check_embedded_stylesheet_on r s))"
proof -
  have "extends (early_checks r (st\<lparr>root := Some r\<rparr>)) s"
    by (rule growingD [OF growing_extract_and_validate_metadata_on m])
  then have r: "root s = Some r" by (simp add: extends_def)
  have a: "check_embedded_stylesheet s = (None, check_embedded_stylesheet_on r s)"
    using r by (simp add: check_embedded_stylesheet_def with_root_def ok_def)
  have b: "check_semantic_groups (check_embedded_stylesheet_on r s) =
             (None, check_semantic_groups_on r (check_embedded_stylesheet_on r s))"
    using r by (simp add: check_semantic_groups_def with_root_def ok_def)
  show ?thesis
    by (simp add: pipeline_parsed [OF assms(1,2)] seq_def [of "extract_and_validate_metadata_on env r"]
          seq_def [of check_embedded_stylesheet] seq_def [of check_semantic_groups] m a b)
qed

lemma validate_raised:
  assumes "pipeline env (st\<lparr>errors := [], warnings := []\<rparr>) = (Some e, s)"
  shows "fst (validate env st) = (False, errors s @ [exn_message env e], warnings s)"
  using assms by (simp add: validate_def handle_def add_error_def Let_def)

lemma validate_returned:
  assumes "pipeline env (st\<lparr>errors := [], warnings := []\<rparr>) = (None, s)"
  shows "fst (validate env st) = (errors s = [], errors s, warnings s)"
  using assms by (simp add: validate_def handle_def Let_def)

lemma fatal_run:
  assumes p: "et_parse env = Parsed r" and sr: "svg_root r"
    and f: "\<And>s. extract_and_validate_metadata_on env r s = (Some x, emit [] idw s)"
  shows "fst (validate env st) =
           (False, errors (early_checks r init) @ [exn_message env x],
            warnings (early_checks r init) @ idw)"
proof -
  let ?s = "st\<lparr>errors := [], warnings := []\<rparr>"
  define es ws where "es = errors (early_checks r init)" and "ws = warnings (early_checks r init)"
  have early: "early_checks r s = emit es ws s" for s
    unfolding es_def ws_def by (rule early_checks_emit)
  have "pipeline env ?s = (Some x, emit [] idw (early_checks r (?s\<lparr>root := Some r\<rparr>)))"
    by (rule pipeline_metadata_raises [OF p sr f])
  from validate_raised [OF this]
  have "fst (validate env st) = (False, es @ [exn_message env x], ws @ idw)"
    by (simp add: early)
  then show ?thesis by (simp add: es_def ws_def)
qed

lemma fatal_absent:
  assumes "find_svg ''metadata'' r = None"
  shows "extract_and_validate_metadata_on env r s =
           (Some (ValidationError ''Missing required <metadata> element''), emit [] [] s)"
  using assms by (simp add: extract_and_validate_metadata_on_def raise_def emit_nil)

lemma fatal_empty:
  assumes "find_svg ''metadata'' r = Some m" and "text_blank (elem_text m)"
  shows "extract_and_validate_metadata_on env r s =
           (Some (ValidationError ''<metadata> element is empty''),
            emit [] (warnings (check_metadata_id m init)) s)"
  using assms
  by (auto simp: extract_and_validate_metadata_on_def raise_def text_blank_def Let_def
        check_metadata_id_emit [symmetric] split: option.splits)

lemma fatal_undecodable:
  assumes "find_svg ''metadata'' r = Some m" and "elem_text m = Some t"
    and "\<not> text_blank (Some t)" and "json_loads env t = JSONDecodeError e"
  shows "extract_and_validate_metadata_on env r s =
           (Some (ValidationError (''Invalid JSON in <metadata>: '' @ e)),
            emit [] (warnings (check_metadata_id m init)) s)"
  using assms
  by (auto simp: extract_and_validate_metadata_on_def raise_def text_blank_def Let_def
        check_metadata_id_emit [symmetric] split: option.splits)

lemma fatal_loads_raised:
  assumes "find_svg ''metadata'' r = Some m" and "elem_text m = Some t"
    and "\<not> text_blank (Some t)" and "json_loads env t = LoadsRaised e"
  shows "extract_and_validate_metadata_on env r s =
           (Some (Other (LibraryError e)), emit [] (warnings (check_metadata_id m init)) s)"
  using assms
  by (auto simp: extract_and_validate_metadata_on_def raise_def text_blank_def Let_def
        check_metadata_id_emit [symmetric] split: option.splits)

subsection \<open>The object before the call\<close>

lemma validator_eq:
  "st\<lparr>errors := [], warnings := [], root := Some r\<rparr> =
     (init\<lparr>errors := [], warnings := [], root := Some r\<rparr>)\<lparr>metadata := metadata st\<rparr>"
  by (cases st) (simp add: init_def)

lemma early_checks_metadata:
  "early_checks r (s\<lparr>metadata := m\<rparr>) = (early_checks r s)\<lparr>metadata := m\<rparr>"
proof -
  obtain es ws where e: "\<And>s. early_checks r s = emit es ws s"
    using ro_early_checks [of r] unfolding reports_only_def by blast
  show ?thesis by (simp add: e emit_def)
qed

lemma check_metadata_id_metadata:
  "check_metadata_id x (s\<lparr>metadata := m\<rparr>) = (check_metadata_id x s)\<lparr>metadata := m\<rparr>"
  by (simp add: check_metadata_id_def add_warning_def Let_def)

lemma extract_metadata_independent:
  fixes env r s m
  defines "a \<equiv> extract_and_validate_metadata_on env r (s\<lparr>metadata := m\<rparr>)"
    and "b \<equiv> extract_and_validate_metadata_on env r s"
  shows "fst a = fst b \<and> errors (snd a) = errors (snd b) \<and> warnings (snd a) = warnings (snd b)
         \<and> (fst b = None \<longrightarrow> snd a = snd b)"
  unfolding a_def b_def
  by (simp add: extract_and_validate_metadata_on_def Let_def raise_def check_metadata_id_metadata
        split: option.splits loads_outcome.splits)

lemma validate_state_independent: "fst (validate env st) = fst (validate env init)"
proof -
  let ?s = "st\<lparr>errors := [], warnings := []\<rparr>" and ?i = "init\<lparr>errors := [], warnings := []\<rparr>"
  show ?thesis
  proof (cases "et_parse env")
    case (ParseError m)
    show ?thesis
      by (simp add: validate_raised [OF pipeline_unparsed(1) [OF ParseError]])
  next
    case FileNotFound
    show ?thesis
      by (simp add: validate_raised [OF pipeline_unparsed(2) [OF FileNotFound]])
  next
    case (ParseRaised m)
    show ?thesis
      by (simp add: validate_raised [OF pipeline_unparsed(3) [OF ParseRaised]])
  next
    case (Parsed r)
    show ?thesis
    proof (cases "svg_root r")
      case False
      show ?thesis
        by (simp add: validate_raised [OF pipeline_unparsed(4) [OF Parsed False]])
    next
      case True
      let ?rest = "seq check_embedded_stylesheet
          (seq check_semantic_groups (check_concept_group_correspondence env))"
      define si where "si = early_checks r (?i\<lparr>root := Some r\<rparr>)"
      define ss where "ss = early_checks r (?s\<lparr>root := Some r\<rparr>)"
      have ss: "ss = si\<lparr>metadata := metadata st\<rparr>"
        unfolding ss_def si_def
        by (subst early_checks_metadata [symmetric]) (simp add: validator_eq [where st = st and r = r])
      obtain x t where b: "extract_and_validate_metadata_on env r si = (x, t)"
        by (cases "extract_and_validate_metadata_on env r si")
      obtain x' t' where a: "extract_and_validate_metadata_on env r ss = (x', t')"
        by (cases "extract_and_validate_metadata_on env r ss")
      from extract_metadata_independent [where env = env and r = r and s = si and m = "metadata st"] a b ss
      have rel: "x' = x" "errors t' = errors t" "warnings t' = warnings t" "x = None \<Longrightarrow> t' = t"
        by simp_all
      have pi: "pipeline env ?i = seq (extract_and_validate_metadata_on env r) ?rest si"
        unfolding si_def by (rule pipeline_parsed [OF Parsed True])
      have ps: "pipeline env ?s = seq (extract_and_validate_metadata_on env r) ?rest ss"
        unfolding ss_def by (rule pipeline_parsed [OF Parsed True])
      show ?thesis
      proof (cases x)
        case None
        with rel have "pipeline env ?s = pipeline env ?i"
          by (simp add: pi ps seq_def [of "extract_and_validate_metadata_on env r"] a b)
        then show ?thesis by (simp add: validate_def Let_def)
      next
        case (Some e)
        with rel have "pipeline env ?s = (Some e, t')" "pipeline env ?i = (Some e, t)"
          by (simp_all add: pi ps seq_def [of "extract_and_validate_metadata_on env r"] a b)
        then show ?thesis using rel
          by (simp add: validate_raised)
      qed
    qed
  qed
qed

subsection \<open>The basic strategy and the rest of the run\<close>

lemma required_fields_loop:
  assumes "metadata st = JObj kvs"
  shows "\<exists>st'. for_each check_required_field fs st = (None, st') \<and> metadata st' = JObj kvs
           \<and> extends st st'
           \<and> (\<forall>f\<in>set fs. map_of kvs f = None \<longrightarrow>
                 ''Missing required metadata field: '' @ f \<in> set (errors st'))"
  using assms
proof (induction fs arbitrary: st)
  case Nil
  then show ?case by (simp add: ok_def extends_refl)
next
  case (Cons f fs)
  let ?s = "if map_of kvs f = None
            then add_error (''Missing required metadata field: '' @ f) st else st"
  have step: "check_required_field f st = (None, ?s)"
    using Cons.prems by (simp add: check_required_field_def ok_def)
  have m: "metadata ?s = JObj kvs" using Cons.prems by (simp add: add_error_def)
  have e: "extends st ?s" by (simp add: extends_refl extends_add_error)
  have here: "map_of kvs f = None \<Longrightarrow> ''Missing required metadata field: '' @ f \<in> set (errors ?s)"
    by (simp add: add_error_def)
  from Cons.IH [OF m] obtain st' where
    l: "for_each check_required_field fs ?s = (None, st')" and m': "metadata st' = JObj kvs"
    and e': "extends ?s st'"
    and a: "\<forall>f\<in>set fs. map_of kvs f = None \<longrightarrow>
                 ''Missing required metadata field: '' @ f \<in> set (errors st')"
    by blast
  have "for_each check_required_field (f # fs) st = (None, st')"
    by (simp add: seq_def [of "check_required_field f"] step l)
  moreover have "extends st st'" by (rule extends_trans [OF e e'])
  moreover have "map_of kvs f = None \<longrightarrow> ''Missing required metadata field: '' @ f \<in> set (errors st')"
    using here extends_errors [OF e'] by blast
  ultimately show ?case using m' a by simp
qed

lemma basic_reports_missing_field:
  assumes "metadata st = JObj kvs" and "f \<in> set required_fields" and "map_of kvs f = None"
  shows "''Missing required metadata field: '' @ f
           \<in> set (errors (snd (validate_metadata_basic env st)))"
proof -
  from required_fields_loop [OF assms(1), of required_fields] obtain st' where
    l: "for_each check_required_field required_fields st = (None, st')"
    and a: "''Missing required metadata field: '' @ f \<in> set (errors st')"
    using assms(2,3) by blast
  have "extends st' (snd (check_concepts_basic (py_repr env) st'))"
    using growing_check_concepts_basic by (simp add: growing_def)
  from extends_errors [OF this a] show ?thesis
    by (simp add: validate_metadata_basic_def seq_def [of "for_each check_required_field required_fields"] l)
qed

lemma pipeline_extends_metadata_stage:
  assumes p: "et_parse env = Parsed r" and sr: "svg_root r"
  shows "extends (snd (extract_and_validate_metadata_on env r (early_checks r (st\<lparr>root := Some r\<rparr>))))
           (snd (pipeline env st))"
proof -
  obtain x s where m: "extract_and_validate_metadata_on env r (early_checks r (st\<lparr>root := Some r\<rparr>)) = (x, s)"
    by (cases "extract_and_validate_metadata_on env r (early_checks r (st\<lparr>root := Some r\<rparr>))")
  show ?thesis
  proof (cases x)
    case None
    have 1: "extends s (check_embedded_stylesheet_on r s)"
      by (subst late_emit) (rule extends_emit)
    have 2: "extends (check_embedded_stylesheet_on r s)
               (check_semantic_groups_on r (check_embedded_stylesheet_on r s))"
      by (subst late_emit(2)) (rule extends_emit)
    have 3: "extends (check_semantic_groups_on r (check_embedded_stylesheet_on r s))
               (snd (check_concept_group_correspondence env
                  (check_semantic_groups_on r (check_embedded_stylesheet_on r s))))"
      using growing_check_concept_group_correspondence by (simp add: growing_def)
    show ?thesis
      using extends_trans [OF extends_trans [OF 1 2] 3] m None
      by (simp add: pipeline_after_metadata [OF p sr])
  next
    case (Some e)
    then show ?thesis using m by (simp add: pipeline_metadata_raises [OF p sr] extends_refl)
  qed
qed

lemma result_of_pipeline:
  "set (errors (snd (pipeline env (st\<lparr>errors := [], warnings := []\<rparr>)))) \<subseteq> set (result_errors (validate env st))"
  "result_warnings (validate env st) = warnings (snd (pipeline env (st\<lparr>errors := [], warnings := []\<rparr>)))"
  by (auto simp: validate_def Let_def handle_def result_errors_def result_warnings_def add_error_def
        split: prod.splits option.splits)

subsection \<open>Findings of the semantic-group check\<close>

lemma fold_reports_member:
  assumes ro: "\<And>x. reports_only (f x)" and "p \<in> set ps" and "e \<in> set (errors (f p init))"
  shows "e \<in> set (errors (fold f ps st))"
  using assms(2)
proof (induction ps arbitrary: st)
  case Nil
  then show ?case by simp
next
  case (Cons x xs)
  show ?case
  proof (cases "p = x")
    case True
    have "e \<in> set (errors (f x st))"
      using assms(3) True by (subst reports_only_init [OF ro]) simp
    moreover have "errors (fold f xs (f x st)) = errors (f x st) @ errors (fold f xs init)"
      by (subst reports_only_init [OF reports_only_fold [of f, OF ro]]) simp
    ultimately show ?thesis by simp
  next
    case False
    with Cons.prems have "p \<in> set xs" by simp
    from Cons.IH [OF this] show ?thesis by simp
  qed
qed

lemma group_attr_missing:
  assumes "get_attr g attr = None"
  shows "errors (check_group_attr g l (attr, expected) init) =
           [''Semantic group '' @ quoted l @ '' missing required attribute: '' @ attr]"
  using assms by (simp add: check_group_attr_def add_error_def init_def)

lemma group_attr_mismatch:
  assumes "get_attr g attr = Some v" and "ev \<noteq> []" and "v \<noteq> ev"
  shows "errors (check_group_attr g l (attr, Some ev) init) =
           [''Semantic group '' @ quoted l @ '' attribute '' @ quoted attr
            @ '': expected '' @ quoted ev @ '', found '' @ quoted v]"
  using assms by (simp add: check_group_attr_def add_error_def init_def)

lemma check_group_semantic:
  assumes "get_attr g ''data-concept'' = Some dc" and "dc \<noteq> []"
  shows "check_group (i, g) st = fold (check_group_attr g (group_label i g)) required_group_attrs st"
  using assms by (simp add: check_group_def Let_def attr_falsy_def)

lemma semantic_group_finding:
  assumes i: "i < length (find_groups r)" and g: "find_groups r ! i = g"
    and dc: "get_attr g ''data-concept'' = Some dc" "dc \<noteq> []"
    and p: "p \<in> set required_group_attrs"
    and e: "e \<in> set (errors (check_group_attr g (group_label i g) p init))"
  shows "e \<in> set (errors (check_semantic_groups_on r st))"
proof -
  have "e \<in> set (errors (fold (check_group_attr g (group_label i g)) required_group_attrs init))"
    by (rule fold_reports_member [of "check_group_attr g (group_label i g)", OF ro_check_group_attr p e])
  then have 1: "e \<in> set (errors (check_group (i, g) init))"
    by (simp add: check_group_semantic [OF dc])
  have 2: "(i, g) \<in> set (enumerate 0 (find_groups r))"
    using i g by (simp add: in_set_enumerate_eq)
  have "e \<in> set (errors (fold check_group (enumerate 0 (find_groups r)) st))"
    by (rule fold_reports_member [of check_group, OF ro_check_group 2 1])
  moreover have "find_groups r \<noteq> []" using i by auto
  ultimately show ?thesis by (simp add: check_semantic_groups_on_def Let_def)
qed

lemma group_findings_reported:
  assumes p: "et_parse env = Parsed r" and sr: "svg_root r"
    and m: "fst (extract_and_validate_metadata_on env r
                   (early_checks r (st\<lparr>errors := [], warnings := [], root := Some r\<rparr>))) = None"
    and e: "\<And>s. e \<in> set (errors (check_semantic_groups_on r s))"
  shows "e \<in> set (result_errors (validate env st))"
proof -
  let ?s0 = "st\<lparr>errors := [], warnings := []\<rparr>"
  obtain s2 where E: "extract_and_validate_metadata_on env r (early_checks r (?s0\<lparr>root := Some r\<rparr>)) = (None, s2)"
    using m by (cases "extract_and_validate_metadata_on env r (early_checks r (?s0\<lparr>root := Some r\<rparr>))") simp
  let ?x = "check_semantic_groups_on r (check_embedded_stylesheet_on r s2)"
  have "extends ?x (snd (check_concept_group_correspondence env ?x))"
    using growing_check_concept_group_correspondence by (simp add: growing_def)
  from extends_errors [OF this e]
  have "e \<in> set (errors (snd (pipeline env ?s0)))"
    by (simp add: pipeline_after_metadata [OF p sr E])
  then show ?thesis using result_of_pipeline(1) [of env st] by blast
qed

subsection \<open>Stages that keep the metadata\<close>

lemma keeps_metadataI: "(\<And>st. metadata (snd (f st)) = metadata st) \<Longrightarrow> keeps_metadata f"
  by (simp add: keeps_metadata_def)

lemma keeps_metadataD: "keeps_metadata f \<Longrightarrow> f st = (x, st') \<Longrightarrow> metadata st' = metadata st"
  by (auto simp: keeps_metadata_def dest: spec [of _ st])

lemma keeps_metadata_seq:
  assumes "keeps_metadata f" and "keeps_metadata g"
  shows "keeps_metadata (seq f g)"
proof (rule keeps_metadataI)
  fix st
  obtain x s1 where f: "f st = (x, s1)" by (cases "f st")
  have m1: "metadata s1 = metadata st" by (rule keeps_metadataD [OF assms(1) f])
  show "metadata (snd (seq f g st)) = metadata st"
  proof (cases x)
    case None
    obtain y s2 where g: "g s1 = (y, s2)" by (cases "g s1")
    have "metadata s2 = metadata s1" by (rule keeps_metadataD [OF assms(2) g])
    then show ?thesis using f g None m1 by (simp add: seq_def)
  next
    case (Some e)
    then show ?thesis using f m1 by (simp add: seq_def)
  qed
qed

lemma keeps_metadata_for_each:
  assumes "\<And>x. keeps_metadata (body x)"
  shows "keeps_metadata (for_each body xs)"
proof (induction xs)
  case Nil
  have "for_each body [] = ok" by (rule ext) simp
  then show ?case by (simp add: keeps_metadata_def ok_def)
next
  case (Cons x xs)
  have "for_each body (x # xs) = seq (body x) (for_each body xs)" by (rule ext) simp
  then show ?case using keeps_metadata_seq [OF assms Cons.IH] by simp
qed

lemma keeps_metadata_check_required_field: "keeps_metadata (check_required_field f)"
  by (rule keeps_metadataI)
     (simp add: check_required_field_def raise_def ok_def add_error_def split: sum.splits)

lemma fold_concept_basic_metadata:
  "metadata (fold (check_concept_basic rp) ps st) = metadata st"
  by (subst reports_only_init [OF reports_only_fold [of "check_concept_basic rp", OF ro_check_concept_basic]])
     simp

lemma keeps_metadata_check_concepts_basic: "keeps_metadata (check_concepts_basic rp)"
  by (rule keeps_metadataI)
     (simp add: check_concepts_basic_def raise_def ok_def add_error_def fold_concept_basic_metadata
           split: sum.splits json.splits bool.splits)

lemma keeps_metadata_validate_metadata_basic: "keeps_metadata (validate_metadata_basic env)"
  unfolding validate_metadata_basic_def
  by (intro keeps_metadata_seq keeps_metadata_for_each keeps_metadata_check_required_field
        keeps_metadata_check_concepts_basic)

lemma basic_metadata [simp]: "metadata (snd (validate_metadata_basic env st)) = metadata st"
  using keeps_metadata_validate_metadata_basic by (simp add: keeps_metadata_def)

lemma keeps_metadata_validate_metadata_schema: "keeps_metadata (validate_metadata_schema env)"
  by (rule keeps_metadataI)
     (simp add: validate_metadata_schema_def ok_def add_error_def add_warning_def
           split: sum.splits schema_outcome.splits)

lemma schema_metadata [simp]: "metadata (snd (validate_metadata_schema env st)) = metadata st"
  using keeps_metadata_validate_metadata_schema by (simp add: keeps_metadata_def)

subsection \<open>The metadata stage, when it returns\<close>

lemma metadata_stage_returned:
  assumes "extract_and_validate_metadata_on env r s = (None, s')"
    and "find_svg ''metadata'' r = Some m" and "elem_text m = Some t"
    and "json_loads env t = Loaded v"
  shows "metadata s' = v"
proof -
  have "metadata (snd (extract_and_validate_metadata_on env r s)) = v
        \<or> fst (extract_and_validate_metadata_on env r s) \<noteq> None"
    using assms(2-4)
    by (simp add: extract_and_validate_metadata_on_def Let_def raise_def add_warning_def)
  then show ?thesis using assms(1) by simp
qed

lemma concepts_basic_on_object:
  assumes "metadata st = JObj kvs"
  shows "fst (check_concepts_basic rp st) = None"
  using assms
  by (cases "map_of kvs ''concepts''")
     (simp_all add: check_concepts_basic_def ok_def split: json.splits)

lemma basic_on_object:
  assumes "metadata st = JObj kvs"
  shows "fst (validate_metadata_basic env st) = None"
proof -
  from required_fields_loop [OF assms, of required_fields] obtain st' where
    l: "for_each check_required_field required_fields st = (None, st')"
    and m: "metadata st' = JObj kvs" by blast
  show ?thesis
    by (simp add: validate_metadata_basic_def seq_def [of "for_each check_required_field required_fields"]
          l concepts_basic_on_object [OF m])
qed

lemma schema_on_object:
  assumes "metadata st = JObj kvs"
  shows "fst (validate_metadata_schema env st) = None"
  using assms
  by (simp add: validate_metadata_schema_def ok_def basic_on_object [of _ kvs] add_warning_def
        split: sum.splits schema_outcome.splits)

lemma metadata_stage_on_object:
  assumes "find_svg ''metadata'' r = Some m" and "elem_text m = Some t"
    and "\<not> text_blank (Some t)" and "json_loads env t = Loaded (JObj kvs)"
  shows "\<exists>s'. extract_and_validate_metadata_on env r s = (None, s') \<and> metadata s' = JObj kvs"
proof -
  have "fst (extract_and_validate_metadata_on env r s) = None"
    using assms
    by (simp add: extract_and_validate_metadata_on_def Let_def text_blank_def
          basic_on_object [of _ kvs] schema_on_object [of _ kvs] add_warning_def)
  then obtain s' where e: "extract_and_validate_metadata_on env r s = (None, s')"
    by (cases "extract_and_validate_metadata_on env r s") simp
  from metadata_stage_returned [OF e assms(1,2,4)] e show ?thesis by simp
qed

subsection \<open>The correspondence loop\<close>

lemma correspondence_on_concepts:
  assumes "metadata x = JObj kvs" and "map_of kvs ''concepts'' = Some (JArr cs)"
    and "root x = Some r"
  shows "check_concept_group_correspondence env x =
           for_each (check_concept (py_repr env) (group_ids r)) cs x"
proof -
  have "kvs \<noteq> []" using assms(2) by auto
  then show ?thesis
    using assms
    by (simp add: check_concept_group_correspondence_def with_root_def
          check_concept_group_correspondence_on_def)
qed

lemma check_concept_passes:
  assumes "\<not> aborts c"
  shows "fst (check_concept rp ids c st) = None"
proof (cases c)
  case (JObj fields)
  then show ?thesis
    using assms
    by (cases "dict_get fields ''id'' JNull")
       (auto simp: check_concept_def Let_def ok_def)
qed (use assms in simp_all)

lemma loop_passes:
  assumes "\<forall>x\<in>set cs. \<not> aborts x"
  shows "fst (for_each (check_concept rp ids) cs st) = None"
  using assms
proof (induction cs arbitrary: st)
  case Nil
  show ?case by (simp add: ok_def)
next
  case (Cons c cs)
  obtain s where c: "check_concept rp ids c st = (None, s)"
    using check_concept_passes [of c rp ids st] Cons.prems
    by (cases "check_concept rp ids c st") simp
  show ?case using Cons.IH [of s] Cons.prems
    by (simp add: seq_def [of "check_concept rp ids c"] c)
qed

lemma loop_reaches:
  assumes pre: "\<forall>x\<in>set pre. \<not> aborts x"
    and step: "\<And>s. check_concept rp ids c s = (None, f s)"
  shows "\<exists>s. extends st s \<and> extends (f s) (snd (for_each (check_concept rp ids) (pre @ c # post) st))"
proof -
  obtain s where p: "for_each (check_concept rp ids) pre st = (None, s)"
    using loop_passes [OF pre, of rp ids st]
    by (cases "for_each (check_concept rp ids) pre st") simp
  have 1: "extends st s"
    using growingD [OF growing_for_each [of "check_concept rp ids", OF growing_check_concept] p] .
  have "for_each (check_concept rp ids) (pre @ c # post) st =
          for_each (check_concept rp ids) post (f s)"
    by (simp add: for_each_append seq_def [of "for_each (check_concept rp ids) pre"] p
          seq_def [of "check_concept rp ids c"] step)
  moreover have "extends (f s) (snd (for_each (check_concept rp ids) post (f s)))"
    using growing_for_each [of "check_concept rp ids" post, OF growing_check_concept]
    by (simp add: growing_def)
  ultimately show ?thesis using 1 by auto
qed

lemma loop_valid:
  assumes "for_each (check_concept rp ids) cs st = (None, s)" and "errors s = []"
  shows "\<forall>c\<in>set cs. set (explicit_id c) \<subseteq> JStr ` set ids"
  using assms
proof (induction cs arbitrary: st)
  case Nil
  show ?case by simp
next
  case (Cons c cs)
  obtain x s1 where c: "check_concept rp ids c st = (x, s1)"
    by (cases "check_concept rp ids c st")
  have x: "x = None"
    using Cons.prems(1) c by (cases x) (simp_all add: seq_def [of "check_concept rp ids c"])
  then have rest: "for_each (check_concept rp ids) cs s1 = (None, s)"
    using Cons.prems(1) c by (simp add: seq_def [of "check_concept rp ids c"])
  have "extends s1 s"
    using growingD [OF growing_for_each [of "check_concept rp ids", OF growing_check_concept] rest] .
  then have e1: "errors s1 = []" using Cons.prems(2) by (rule extends_no_errors)
  have "extends st s1" by (rule growingD [OF growing_check_concept c])
  then have e0: "errors st = []" using e1 by (rule extends_no_errors)
  have "set (explicit_id c) \<subseteq> JStr ` set ids"
  proof (cases c)
    case (JObj fields)
    show ?thesis
    proof (cases "truthy (dict_get fields ''implicit'' (JBool False))")
      case True
      then show ?thesis using JObj by simp
    next
      case False
      have cc: "check_concept rp ids c st =
          (if \<not> truthy (dict_get fields ''id'' JNull)
           then ok (add_error (''Concept with role ''
                         @ quoted (py_str rp (dict_get fields ''role'' (JStr ''unknown'')))
                         @ '' is not marked as implicit but has no '' @ quoted ''id''
                         @ '' field'') st)
           else (case py_in_set (dict_get fields ''id'' JNull) ids of
                      Inl e \<Rightarrow> raise (Other e) st
                    | Inr present \<Rightarrow>
                        ok (if \<not> present
                            then add_error (''Metadata concept ''
                                   @ quoted (py_str rp (dict_get fields ''id'' JNull))
                                   @ '' has no corresponding <g> element in the SVG'') st
                            else st)))"
        using False JObj by (simp add: check_concept_def Let_def)
      have t: "truthy (dict_get fields ''id'' JNull)"
        using c x e1 by (auto simp: cc ok_def add_error_def split: if_splits)
      have "py_in_set (dict_get fields ''id'' JNull) ids = Inr True"
        using c x e1 t
        by (cases "py_in_set (dict_get fields ''id'' JNull) ids")
           (auto simp: cc ok_def raise_def add_error_def split: if_splits)
      then have "\<exists>i. dict_get fields ''id'' JNull = JStr i \<and> i \<in> set ids"
        by (cases "dict_get fields ''id'' JNull") simp_all
      then show ?thesis using False JObj by auto
    qed
  qed simp_all
  moreover have "\<forall>c\<in>set cs. set (explicit_id c) \<subseteq> JStr ` set ids"
    by (rule Cons.IH [OF rest Cons.prems(2)])
  ultimately show ?case by simp
qed

subsection \<open>Valid runs and reported concept findings\<close>

lemma valid_run:
  assumes "is_valid (validate env st)"
  shows "\<exists>s. pipeline env (st\<lparr>errors := [], warnings := []\<rparr>) = (None, s) \<and> errors s = []"
proof -
  obtain x s where p: "pipeline env (st\<lparr>errors := [], warnings := []\<rparr>) = (x, s)"
    by (cases "pipeline env (st\<lparr>errors := [], warnings := []\<rparr>)")
  show ?thesis
  proof (cases x)
    case None
    then show ?thesis using assms p validate_returned [of env st s] by (simp add: is_valid_def)
  next
    case (Some e)
    then show ?thesis using assms p validate_raised [of env st e s] by (simp add: is_valid_def)
  qed
qed

lemma run_to_correspondence:
  assumes p: "et_parse env = Parsed r" and sr: "svg_root r"
    and E: "extract_and_validate_metadata_on env r
              (early_checks r (st\<lparr>errors := [], warnings := [], root := Some r\<rparr>)) = (None, s2)"
    and md: "metadata s2 = JObj kvs" and cs: "map_of kvs ''concepts'' = Some (JArr cs)"
  shows "\<exists>x. root x = Some r \<and> pipeline env (st\<lparr>errors := [], warnings := []\<rparr>) =
           for_each (check_concept (py_repr env) (group_ids r)) cs x"
proof -
  let ?s0 = "st\<lparr>errors := [], warnings := []\<rparr>"
  let ?x = "check_semantic_groups_on r (check_embedded_stylesheet_on r s2)"
  have E': "extract_and_validate_metadata_on env r (early_checks r (?s0\<lparr>root := Some r\<rparr>)) = (None, s2)"
    using E by simp
  have "extends (early_checks r (?s0\<lparr>root := Some r\<rparr>)) s2"
    by (rule growingD [OF growing_extract_and_validate_metadata_on E'])
  then have r: "root ?x = Some r" by (simp add: extends_def)
  have m: "metadata ?x = JObj kvs" using md by simp
  have "pipeline env ?s0 = check_concept_group_correspondence env ?x"
    by (rule pipeline_after_metadata [OF p sr E'])
  then have pe: "pipeline env ?s0 = for_each (check_concept (py_repr env) (group_ids r)) cs ?x"
    by (simp only: correspondence_on_concepts [OF m cs r])
  show ?thesis by (intro exI [of _ ?x] conjI r pe)
qed

lemma explicit_ids_of_object:
  assumes "map_of kvs ''concepts'' = Some (JArr cs)"
  shows "explicit_ids (JObj kvs) = concat (map explicit_id cs)"
  using assms by (simp add: explicit_ids_def concepts_of_def)

lemma explicit_ids_without_concepts:
  assumes "\<not> (\<exists>kvs cs. v = JObj kvs \<and> map_of kvs ''concepts'' = Some (JArr cs))"
  shows "explicit_ids v = []"
proof -
  have "concepts_of v = []"
    using assms by (auto simp: concepts_of_def split: json.splits option.splits)
  then show ?thesis by (simp add: explicit_ids_def)
qed

lemma valid_correspondence:
  assumes p: "et_parse env = Parsed r" and sr: "svg_root r"
    and m: "find_svg ''metadata'' r = Some m" and t: "elem_text m = Some t"
    and l: "json_loads env t = Loaded v"
    and valid: "is_valid (validate env st)"
  shows "set (explicit_ids v) \<subseteq> JStr ` set (group_ids r)"
proof (cases "\<exists>kvs cs. v = JObj kvs \<and> map_of kvs ''concepts'' = Some (JArr cs)")
  case False
  then have "explicit_ids v = []" by (rule explicit_ids_without_concepts)
  then show ?thesis by simp
next
  case True
  then obtain kvs cs where v: "v = JObj kvs" and cs: "map_of kvs ''concepts'' = Some (JArr cs)"
    by blast
  let ?s0 = "st\<lparr>errors := [], warnings := []\<rparr>"
  let ?s1 = "early_checks r (?s0\<lparr>root := Some r\<rparr>)"
  from valid_run [OF valid] obtain s where run: "pipeline env ?s0 = (None, s)" and ok: "errors s = []"
    by blast
  obtain x s2 where E: "extract_and_validate_metadata_on env r ?s1 = (x, s2)"
    by (cases "extract_and_validate_metadata_on env r ?s1")
  have "x = None"
  proof (cases x)
    case (Some e)
    with pipeline_metadata_raises [OF p sr, of ?s0 e s2] E run show ?thesis by simp
  qed simp
  with E have E': "extract_and_validate_metadata_on env r ?s1 = (None, s2)" by simp
  have md: "metadata s2 = JObj kvs"
    using metadata_stage_returned [OF E' m t l] v by simp
  from run_to_correspondence [OF p sr _ md cs, of st] E' obtain y where
    "pipeline env ?s0 = for_each (check_concept (py_repr env) (group_ids r)) cs y"
    by auto
  with run have "for_each (check_concept (py_repr env) (group_ids r)) cs y = (None, s)" by simp
  from loop_valid [OF this ok] show ?thesis
    by (auto simp: explicit_ids_of_object [OF cs] v)
qed

lemma concept_finding_reported:
  assumes p: "et_parse env = Parsed r" and sr: "svg_root r"
    and m: "find_svg ''metadata'' r = Some m" and t: "elem_text m = Some t"
    and nb: "\<not> text_blank (Some t)" and l: "json_loads env t = Loaded (JObj kvs)"
    and cs: "map_of kvs ''concepts'' = Some (JArr (pre @ c # post))"
    and pre: "\<forall>x\<in>set pre. \<not> aborts x"
    and step: "\<And>s. check_concept (py_repr env) (group_ids r) c s = (None, f s)"
  shows "\<exists>s. extends (f s) (snd (pipeline env (st\<lparr>errors := [], warnings := []\<rparr>)))"
proof -
  from metadata_stage_on_object [OF m t nb l] obtain s2 where
    E: "extract_and_validate_metadata_on env r
          (early_checks r (st\<lparr>errors := [], warnings := [], root := Some r\<rparr>)) = (None, s2)"
    and md: "metadata s2 = JObj kvs" by blast
  from run_to_correspondence [OF p sr E md cs] obtain x where
    run: "pipeline env (st\<lparr>errors := [], warnings := []\<rparr>) =
            for_each (check_concept (py_repr env) (group_ids r)) (pre @ c # post) x"
    by blast
  from loop_reaches [OF pre step, of x post] show ?thesis
    unfolding run by blast
qed

lemma explicit_concept_not_found:
  assumes "\<not> truthy (dict_get cpt ''implicit'' (JBool False))"
    and "dict_get cpt ''id'' JNull = JStr i" and "i \<noteq> []" and "i \<notin> set ids"
  shows "check_concept rp ids (JObj cpt) s =
           (None, add_error (''Metadata concept '' @ quoted i
                     @ '' has no corresponding <g> element in the SVG'') s)"
  using assms by (simp add: check_concept_def Let_def ok_def)

lemma explicit_concept_no_id:
  assumes "\<not> truthy (dict_get cpt ''implicit'' (JBool False))"
    and "\<not> truthy (dict_get cpt ''id'' JNull)"
  shows "check_concept rp ids (JObj cpt) s =
           (None, add_error (''Concept with role ''
                         @ quoted (py_str rp (dict_get cpt ''role'' (JStr ''unknown'')))
                         @ '' is not marked as implicit but has no '' @ quoted ''id''
                         @ '' field'') s)"
  using assms by (simp add: check_concept_def Let_def ok_def)

lemma implicit_concept_with_id:
  assumes "truthy (dict_get cpt ''implicit'' (JBool False))"
    and "truthy (dict_get cpt ''id'' JNull)"
  shows "check_concept rp ids (JObj cpt) s =
           (None, add_warning (''Concept '' @ quoted (py_str rp (dict_get cpt ''id'' JNull))
                              @ '' is marked as implicit but has an '' @ quoted ''id''
                              @ '' field. Implicit concepts typically don'' @ q
                              @ ''t have corresponding SVG groups.'') s)"
  using assms by (simp add: check_concept_def Let_def ok_def)

subsection \<open>Findings of the basic strategy about a concept\<close>

lemma basic_concept_missing_id:
  assumes md: "metadata st = JObj kvs"
    and cs: "map_of kvs ''concepts'' = Some (JArr (pre @ JObj cpt # post))"
    and ni: "\<not> truthy (dict_get cpt ''implicit'' (JBool False))" and nid: "map_of cpt ''id'' = None"
  shows "''Missing required field '' @ quoted ''id''
           @ '' in metadata.concepts['' @ nat_str (length pre) @ ''] (role: ''
           @ py_str (py_repr env) (dict_get cpt ''role'' (JStr ''unknown''))
           @ ''). Explicit concepts must have an '' @ quoted ''id'' @ '' field.''
         \<in> set (errors (snd (validate_metadata_basic env st)))" (is "?msg \<in> _")
proof -
  let ?cs = "pre @ JObj cpt # post"
  from required_fields_loop [OF md, of required_fields] obtain st' where
    l: "for_each check_required_field required_fields st = (None, st')"
    and m: "metadata st' = JObj kvs" by blast
  have c: "check_concepts_basic (py_repr env) st' =
             (None, fold (check_concept_basic (py_repr env)) (enumerate 0 ?cs) st')"
    using m cs by (simp add: check_concepts_basic_def ok_def)
  have 1: "(length pre, JObj cpt) \<in> set (enumerate 0 ?cs)"
    by (simp add: in_set_enumerate_eq)
  have 2: "?msg \<in> set (errors (check_concept_basic (py_repr env) (length pre, JObj cpt) init))"
    using ni nid by (simp add: check_concept_basic_def Let_def add_error_def init_def)
  have "?msg \<in> set (errors (fold (check_concept_basic (py_repr env)) (enumerate 0 ?cs) st'))"
    by (rule fold_reports_member [of "check_concept_basic (py_repr env)", OF ro_check_concept_basic 1 2])
  then show ?thesis
    by (simp add: validate_metadata_basic_def seq_def [of "for_each check_required_field required_fields"] l c)
qed

lemma metadata_stage_runs_basic:
  assumes br: "basic_runs env"
    and m: "find_svg ''metadata'' r = Some m" and t: "elem_text m = Some t"
    and nb: "\<not> text_blank (Some t)" and l: "json_loads env t = Loaded v"
  shows "\<exists>w. extract_and_validate_metadata_on env r s =
               validate_metadata_basic env
                 (add_warning w ((check_metadata_id m s)\<lparr>metadata := v\<rparr>))"
proof (cases "jsonschema_available env")
  case False
  then show ?thesis
    using m t nb l
    by (auto simp: extract_and_validate_metadata_on_def Let_def text_blank_def)
next
  case True
  then have E: "extract_and_validate_metadata_on env r s =
                  validate_metadata_schema env ((check_metadata_id m s)\<lparr>metadata := v\<rparr>)"
    using m t nb l
    by (simp add: extract_and_validate_metadata_on_def Let_def text_blank_def)
  show ?thesis
  proof (cases "schema_exists env")
    case False
    then show ?thesis unfolding E by (auto simp: validate_metadata_schema_def)
  next
    case exists: True
    with True br obtain e where "load_schema env = Inl e"
      by (cases "load_schema env") (simp_all add: basic_runs_def)
    with exists show ?thesis unfolding E by (auto simp: validate_metadata_schema_def)
  qed
qed

lemma basic_finding_reported:
  assumes br: "basic_runs env"
    and p: "et_parse env = Parsed r" and sr: "svg_root r"
    and m: "find_svg ''metadata'' r = Some m" and t: "elem_text m = Some t"
    and nb: "\<not> text_blank (Some t)" and l: "json_loads env t = Loaded v"
    and e: "\<And>s. metadata s = v \<Longrightarrow> e \<in> set (errors (snd (validate_metadata_basic env s)))"
  shows "e \<in> set (result_errors (validate env st))"
proof -
  let ?s0 = "st\<lparr>errors := [], warnings := []\<rparr>"
  let ?s1 = "early_checks r (?s0\<lparr>root := Some r\<rparr>)"
  let ?E = "extract_and_validate_metadata_on env r ?s1"
  from metadata_stage_runs_basic [OF br m t nb l, of ?s1] obtain w where
    E: "?E = validate_metadata_basic env
               (add_warning w ((check_metadata_id m ?s1)\<lparr>metadata := v\<rparr>))"
    by blast
  have "metadata (add_warning w ((check_metadata_id m ?s1)\<lparr>metadata := v\<rparr>)) = v"
    by (simp add: add_warning_def)
  then have "e \<in> set (errors (snd ?E))" unfolding E by (rule e)
  then have "e \<in> set (errors (snd (pipeline env ?s0)))"
    by (rule extends_errors [OF pipeline_extends_metadata_stage [OF p sr, of ?s0]])
  then show ?thesis using result_of_pipeline(1) [of env st] by blast
qed

lemma implicit_concept_without_id:
  assumes "truthy (dict_get cpt ''implicit'' (JBool False))"
    and "\<not> truthy (dict_get cpt ''id'' JNull)"
  shows "check_concept rp ids (JObj cpt) s = (None, s)"
  using assms by (simp add: check_concept_def Let_def ok_def)

section \<open>The claims\<close>

subsection \<open>C1: what is still reported when the metadata is unusable\<close>

text \<open>
  Checked against the document \<open>no_metadata_doc\<close>, which has no metadata element and a
  group that lacks every required attribute: the report holds the fatal metadata error
  and nothing else, although the semantic-group check alone reports three errors on it
  and the stylesheet check a warning. \<open>validate\<close> calls both after
  \<open>_extract_and_validate_metadata\<close>, whose \<open>ValidationError\<close> ends the \<open>try\<close> block.
\<close>

theorem later_checks_counterexample:
  "fst (validate (example_env (Parsed no_metadata_doc) (Loaded JNull)) init) =
     (False, [''Missing required <metadata> element''], [])
   \<and> errors (check_semantic_groups_on no_metadata_doc init) =
       [''Semantic group '' @ quoted ''foo'' @ '' missing required attribute: role'',
        ''Semantic group '' @ quoted ''foo'' @ '' missing required attribute: tabindex'',
        ''Semantic group '' @ quoted ''foo'' @ '' missing required attribute: aria-label'']
   \<and> warnings (check_embedded_stylesheet_on no_metadata_doc init) =
       [''No <defs> element found; embedded stylesheet recommended'']"
  by code_simp

text \<open>
  C1, as amended. For a document whose metadata element is absent, empty or undecodable
  (the decoder reports a JSON decoding error, or raises any other exception), the report
  consists of the findings of the two checks that precede the metadata (root
  attributes, title and description), the warning about the id of the metadata element
  when one applies, and one fatal error as the last error: the metadata error, or the
  unexpected error with the text of the decoder's exception. The stylesheet check and
  the semantic-group check contribute nothing.
\<close>

theorem fatal_metadata_skips_later_checks:
  assumes "et_parse env = Parsed r" and "svg_root r"
    and "find_svg ''metadata'' r = None \<and> msg = ''Missing required <metadata> element'' \<and> idw = []
       \<or> (\<exists>m. find_svg ''metadata'' r = Some m \<and> text_blank (elem_text m)
              \<and> msg = ''<metadata> element is empty''
              \<and> idw = warnings (check_metadata_id m init))
       \<or> (\<exists>m t e. find_svg ''metadata'' r = Some m \<and> elem_text m = Some t
              \<and> \<not> text_blank (Some t) \<and> json_loads env t = JSONDecodeError e
              \<and> msg = ''Invalid JSON in <metadata>: '' @ e
              \<and> idw = warnings (check_metadata_id m init))
       \<or> (\<exists>m t e. find_svg ''metadata'' r = Some m \<and> elem_text m = Some t
              \<and> \<not> text_blank (Some t) \<and> json_loads env t = LoadsRaised e
              \<and> msg = ''Unexpected error: '' @ err_str env (LibraryError e)
              \<and> idw = warnings (check_metadata_id m init))"
  shows "fst (validate env st) =
           (False, errors (early_checks r init) @ [msg], warnings (early_checks r init) @ idw)"
  using assms(3)
proof (elim disjE conjE exE)
  assume "find_svg ''metadata'' r = None" "msg = ''Missing required <metadata> element''" "idw = []"
  then show ?thesis
    using fatal_run [OF assms(1,2), of _ idw st] fatal_absent [of r env]
    by (simp add: exn_message_def)
next
  fix m
  assume "find_svg ''metadata'' r = Some m" "text_blank (elem_text m)"
    "msg = ''<metadata> element is empty''" "idw = warnings (check_metadata_id m init)"
  then show ?thesis
    using fatal_run [OF assms(1,2), of _ idw st] fatal_empty [of r m env]
    by (simp add: exn_message_def)
next
  fix m t e
  assume "find_svg ''metadata'' r = Some m" "elem_text m = Some t" "\<not> text_blank (Some t)"
    "json_loads env t = JSONDecodeError e" "msg = ''Invalid JSON in <metadata>: '' @ e"
    "idw = warnings (check_metadata_id m init)"
  then show ?thesis
    using fatal_run [OF assms(1,2), of _ idw st] fatal_undecodable [of r m t env e]
    by (simp add: exn_message_def)
next
  fix m t e
  assume "find_svg ''metadata'' r = Some m" "elem_text m = Some t" "\<not> text_blank (Some t)"
    "json_loads env t = LoadsRaised e" "msg = ''Unexpected error: '' @ err_str env (LibraryError e)"
    "idw = warnings (check_metadata_id m init)"
  then show ?thesis
    using fatal_run [OF assms(1,2), of _ idw st] fatal_loads_raised [of r m t env e]
    by (simp add: exn_message_def)
qed

theorem fatal_metadata_skips_later_checks_witness:
  "fst (validate (example_env (Parsed no_metadata_doc) (Loaded JNull)) init) =
     (False, [''Missing required <metadata> element''], [])
   \<and> fst (validate (example_env (Parsed blank_metadata_doc) (Loaded JNull)) init) =
     (False, [''<metadata> element is empty''],
      [''<metadata> id should be '' @ quoted ''mf-accessibility'' @ '', found: None''])
   \<and> fst (validate (example_env (Parsed bare_doc) (JSONDecodeError ''Expecting value'')) init) =
     (False, [''Invalid JSON in <metadata>: Expecting value''], [])
   \<and> fst (validate (example_env (Parsed bare_doc)
                      (LoadsRaised ''Exceeds the limit for integer string conversion'')) init) =
     (False, [''Unexpected error: Exceeds the limit for integer string conversion''], [])"
proof -
  let ?e1 = "example_env (Parsed no_metadata_doc) (Loaded JNull)"
  let ?e2 = "example_env (Parsed bare_doc) (JSONDecodeError ''Expecting value'')"
  let ?e3 = "example_env (Parsed blank_metadata_doc) (Loaded JNull)"
  let ?e4 = "example_env (Parsed bare_doc)
               (LoadsRaised ''Exceeds the limit for integer string conversion'')"
  have a: "et_parse ?e1 = Parsed no_metadata_doc" "et_parse ?e2 = Parsed bare_doc"
    "et_parse ?e3 = Parsed blank_metadata_doc" "et_parse ?e4 = Parsed bare_doc"
    by (simp_all add: example_env_def)
  have b: "svg_root no_metadata_doc" "svg_root bare_doc" "svg_root blank_metadata_doc"
    by code_simp+
  have c1: "find_svg ''metadata'' no_metadata_doc = None" by code_simp
  have c2: "find_svg ''metadata'' bare_doc = Some metadata_elem" by code_simp
  have c3: "elem_text metadata_elem = Some ''{...}''" "\<not> text_blank (Some ''{...}'')"
    "json_loads ?e2 ''{...}'' = JSONDecodeError ''Expecting value''" by code_simp+
  have c4: "find_svg ''metadata'' blank_metadata_doc = Some blank_metadata_elem"
    "text_blank (elem_text blank_metadata_elem)" by code_simp+
  have c5: "json_loads ?e4 ''{...}'' = LoadsRaised ''Exceeds the limit for integer string conversion''"
    "err_str ?e4 (LibraryError ''Exceeds the limit for integer string conversion'')
       = ''Exceeds the limit for integer string conversion''"
    by code_simp+
  have d: "errors (early_checks no_metadata_doc init) = []" "warnings (early_checks no_metadata_doc init) = []"
    "errors (early_checks bare_doc init) = []" "warnings (early_checks bare_doc init) = []"
    "errors (early_checks blank_metadata_doc init) = []"
    "warnings (early_checks blank_metadata_doc init) = []"
    "warnings (check_metadata_id metadata_elem init) = []"
    by code_simp+
  have w: "warnings (check_metadata_id blank_metadata_elem init) =
             [''<metadata> id should be '' @ quoted ''mf-accessibility'' @ '', found: None'']"
    by code_simp
  have 1: "fst (validate ?e1 init) = (False, [''Missing required <metadata> element''], [])"
    using fatal_metadata_skips_later_checks [OF a(1) b(1), of "''Missing required <metadata> element''" "[]" init]
      c1 d by simp
  have 2: "fst (validate ?e2 init) = (False, [''Invalid JSON in <metadata>: Expecting value''], [])"
    using fatal_metadata_skips_later_checks [OF a(2) b(2), of "''Invalid JSON in <metadata>: Expecting value''" "[]" init]
      c2 c3 d by simp
  have 3: "fst (validate ?e3 init) = (False, [''<metadata> element is empty''],
      [''<metadata> id should be '' @ quoted ''mf-accessibility'' @ '', found: None''])"
    using fatal_metadata_skips_later_checks [OF a(3) b(3), of "''<metadata> element is empty''"
        "[''<metadata> id should be '' @ quoted ''mf-accessibility'' @ '', found: None'']" init]
      c4 d(5,6) w by simp
  have 4: "fst (validate ?e4 init) =
      (False, [''Unexpected error: Exceeds the limit for integer string conversion''], [])"
    using fatal_metadata_skips_later_checks [OF a(4) b(2),
        of "''Unexpected error: Exceeds the limit for integer string conversion''" "[]" init]
      c2 c3(1,2) c5 d by simp
  show ?thesis by (intro conjI) (fact 1 2 3 4)+
qed

subsection \<open>C2: no exception leaves \<open>validate\<close>\<close>

text \<open>
  C2. Whatever the parser, the decoder and the schema library do, \<open>validate\<close> returns a
  triple. When the body of the \<open>try\<close> block raises an exception, the triple is invalid
  and its last error is the text of that exception; when it returns, the triple holds
  the findings collected. A path that does not exist, markup that does not parse, any
  other failure of the parser and a root that is not \<open>svg\<close> each give exactly one error
  and no warning.
\<close>

theorem validate_converts_every_failure:
  "(\<forall>e s. pipeline env (st\<lparr>errors := [], warnings := []\<rparr>) = (Some e, s) \<longrightarrow>
       fst (validate env st) = (False, errors s @ [exn_message env e], warnings s))
   \<and> (\<forall>s. pipeline env (st\<lparr>errors := [], warnings := []\<rparr>) = (None, s) \<longrightarrow>
       fst (validate env st) = (errors s = [], errors s, warnings s))
   \<and> (\<forall>m. et_parse env = ParseError m \<longrightarrow>
       fst (validate env st) = (False, [''XML parsing error: '' @ m], []))
   \<and> (et_parse env = FileNotFound \<longrightarrow>
       fst (validate env st) = (False, [''File not found: '' @ svg_path env], []))
   \<and> (\<forall>m. et_parse env = ParseRaised m \<longrightarrow>
       fst (validate env st) = (False, [''Unexpected error: '' @ err_str env (LibraryError m)], []))
   \<and> (\<forall>r. et_parse env = Parsed r \<and> \<not> svg_root r \<longrightarrow>
       fst (validate env st) = (False, [''Root element must be <svg>, found: '' @ tag r], []))"
proof (intro conjI allI impI)
  fix e s
  assume "pipeline env (st\<lparr>errors := [], warnings := []\<rparr>) = (Some e, s)"
  then show "fst (validate env st) = (False, errors s @ [exn_message env e], warnings s)"
    by (rule validate_raised)
next
  fix s
  assume "pipeline env (st\<lparr>errors := [], warnings := []\<rparr>) = (None, s)"
  then show "fst (validate env st) = (errors s = [], errors s, warnings s)"
    by (rule validate_returned)
next
  fix m
  assume "et_parse env = ParseError m"
  from validate_raised [OF pipeline_unparsed(1) [OF this]]
  show "fst (validate env st) = (False, [''XML parsing error: '' @ m], [])"
    by (simp add: exn_message_def)
next
  assume "et_parse env = FileNotFound"
  from validate_raised [OF pipeline_unparsed(2) [OF this]]
  show "fst (validate env st) = (False, [''File not found: '' @ svg_path env], [])"
    by (simp add: exn_message_def)
next
  fix m
  assume "et_parse env = ParseRaised m"
  from validate_raised [OF pipeline_unparsed(3) [OF this]]
  show "fst (validate env st) = (False, [''Unexpected error: '' @ err_str env (LibraryError m)], [])"
    by (simp add: exn_message_def)
next
  fix r
  assume "et_parse env = Parsed r \<and> \<not> svg_root r"
  then have "et_parse env = Parsed r" "\<not> svg_root r" by simp_all
  from validate_raised [OF pipeline_unparsed(4) [OF this]]
  show "fst (validate env st) = (False, [''Root element must be <svg>, found: '' @ tag r], [])"
    by (simp add: exn_message_def)
qed

theorem validate_converts_every_failure_witness:
  "fst (validate (example_env FileNotFound (Loaded JNull)) init)
     = (False, [''File not found: bed.svg''], [])
   \<and> fst (validate (example_env (ParseError ''no element found: line 1, column 0'') (Loaded JNull)) init)
     = (False, [''XML parsing error: no element found: line 1, column 0''], [])
   \<and> fst (validate (example_env (ParseRaised ''Is a directory'') (Loaded JNull)) init)
     = (False, [''Unexpected error: Is a directory''], [])
   \<and> fst (validate (example_env (Parsed bed_group) (Loaded JNull)) init)
     = (False, [''Root element must be <svg>, found: {http://www.w3.org/2000/svg}g''], [])
   \<and> fst (validate (example_env (Parsed bed_doc) (Loaded (JObj (metadata_with [list_id_concept])))) init)
     = (False, [''Unexpected error: unhashable type''],
        [''Skipping JSON schema validation (jsonschema not installed)'',
         ''No <defs> element found; embedded stylesheet recommended''])
   \<and> fst (validate (example_env (Parsed bed_doc) (Loaded (JObj (metadata_with [bed_concept])))) init)
     = (True, [],
        [''Skipping JSON schema validation (jsonschema not installed)'',
         ''No <defs> element found; embedded stylesheet recommended''])"
proof -
  let ?e1 = "example_env FileNotFound (Loaded JNull)"
  let ?e2 = "example_env (ParseError ''no element found: line 1, column 0'') (Loaded JNull)"
  let ?e3 = "example_env (ParseRaised ''Is a directory'') (Loaded JNull)"
  let ?e4 = "example_env (Parsed bed_group) (Loaded JNull)"
  let ?e5 = "example_env (Parsed bed_doc) (Loaded (JObj (metadata_with [list_id_concept])))"
  let ?e6 = "example_env (Parsed bed_doc) (Loaded (JObj (metadata_with [bed_concept])))"
  let ?s = "init\<lparr>errors := [], warnings := []\<rparr>"
  have 1: "fst (validate ?e1 init) = (False, [''File not found: bed.svg''], [])"
    using validate_converts_every_failure [of ?e1 init] by (simp add: example_env_def)
  have 2: "fst (validate ?e2 init) = (False, [''XML parsing error: no element found: line 1, column 0''], [])"
    using validate_converts_every_failure [of ?e2 init] by (simp add: example_env_def)
  have 3: "fst (validate ?e3 init) = (False, [''Unexpected error: Is a directory''], [])"
    using validate_converts_every_failure [of ?e3 init]
    by (simp add: example_env_def example_err_str_def)
  have r4: "\<not> svg_root bed_group" by code_simp
  have t4: "tag bed_group = ''{http://www.w3.org/2000/svg}g''" by code_simp
  have 4: "fst (validate ?e4 init) = (False, [''Root element must be <svg>, found: {http://www.w3.org/2000/svg}g''], [])"
    using validate_converts_every_failure [of ?e4 init] r4 t4 by (simp add: example_env_def)
  have p5: "fst (pipeline ?e5 ?s) = Some (Other (Unhashable TList))"
    "errors (snd (pipeline ?e5 ?s)) = []"
    "warnings (snd (pipeline ?e5 ?s)) = [''Skipping JSON schema validation (jsonschema not installed)'',
         ''No <defs> element found; embedded stylesheet recommended'']"
    by code_simp+
  have m5: "exn_message ?e5 (Other (Unhashable TList)) = ''Unexpected error: unhashable type''"
    by code_simp
  have 5: "fst (validate ?e5 init) = (False, [''Unexpected error: unhashable type''],
        [''Skipping JSON schema validation (jsonschema not installed)'',
         ''No <defs> element found; embedded stylesheet recommended''])"
  proof -
    have "pipeline ?e5 ?s = (Some (Other (Unhashable TList)), snd (pipeline ?e5 ?s))"
      using p5(1) by (cases "pipeline ?e5 ?s") simp
    from validate_converts_every_failure [of ?e5 init, THEN conjunct1, rule_format, OF this]
    show ?thesis by (simp only: p5 m5 append_Nil)
  qed
  have p6: "fst (pipeline ?e6 ?s) = None"
    "errors (snd (pipeline ?e6 ?s)) = []"
    "warnings (snd (pipeline ?e6 ?s)) = [''Skipping JSON schema validation (jsonschema not installed)'',
         ''No <defs> element found; embedded stylesheet recommended'']"
    by code_simp+
  have 6: "fst (validate ?e6 init) = (True, [],
        [''Skipping JSON schema validation (jsonschema not installed)'',
         ''No <defs> element found; embedded stylesheet recommended''])"
  proof -
    have "pipeline ?e6 ?s = (None, snd (pipeline ?e6 ?s))"
      using p6(1) by (cases "pipeline ?e6 ?s") simp
    from validate_converts_every_failure [of ?e6 init, THEN conjunct2, THEN conjunct1, rule_format, OF this]
    show ?thesis by (simp only: p6) simp
  qed
  show ?thesis by (intro conjI) (fact 1 2 3 4 5 6)+
qed

subsection \<open>C3: validity is the absence of errors\<close>

text \<open>
  C3. The returned \<open>is_valid\<close> is true exactly when the returned error sequence is
  empty, and two runs that return the same errors are equally valid whatever their
  warnings are.
\<close>

theorem valid_iff_no_errors:
  "is_valid (validate env st) = (result_errors (validate env st) = [])
   \<and> (\<forall>env' st'. result_errors (validate env' st') = result_errors (validate env st)
         \<longrightarrow> is_valid (validate env' st') = is_valid (validate env st))"
  by (simp add: is_valid_def result_errors_def validate_def Let_def)

theorem valid_iff_no_errors_witness:
  "result_errors (validate (full_env (Parsed bed_doc) (Loaded (JObj (metadata_with [bed_concept])))) init)
     = result_errors (validate (example_env (Parsed bed_doc) (Loaded (JObj (metadata_with [bed_concept])))) init)
   \<and> result_warnings (validate (full_env (Parsed bed_doc) (Loaded (JObj (metadata_with [bed_concept])))) init)
     \<noteq> result_warnings (validate (example_env (Parsed bed_doc) (Loaded (JObj (metadata_with [bed_concept])))) init)
   \<and> is_valid (validate (full_env (Parsed bed_doc) (Loaded (JObj (metadata_with [bed_concept])))) init)
     = is_valid (validate (example_env (Parsed bed_doc) (Loaded (JObj (metadata_with [bed_concept])))) init)
   \<and> is_valid (validate (example_env (Parsed bed_doc) (Loaded (JObj (metadata_with [bed_concept])))) init)"
proof -
  let ?a = "full_env (Parsed bed_doc) (Loaded (JObj (metadata_with [bed_concept])))"
  let ?b = "example_env (Parsed bed_doc) (Loaded (JObj (metadata_with [bed_concept])))"
  have e: "result_errors (validate ?a init) = result_errors (validate ?b init)"
    by code_simp
  have w: "result_warnings (validate ?a init) \<noteq> result_warnings (validate ?b init)"
    by code_simp
  have n: "result_errors (validate ?b init) = []"
    by code_simp
  note t = valid_iff_no_errors [of ?b init]
  have v: "is_valid (validate ?b init)"
    using t [THEN conjunct1] n by simp
  have s: "is_valid (validate ?a init) = is_valid (validate ?b init)"
    by (rule t [THEN conjunct2, rule_format, OF e])
  show ?thesis by (intro conjI) (fact e w s v)+
qed

subsection \<open>C4: concepts and groups\<close>

text \<open>
  Checked against a metadata block whose first concept has a list as identifier and whose
  second concept, \<open>chair\<close>, is explicit and has no group: the set membership test raises
  on the first concept, the loop ends there, and the report carries the unexpected
  error only. No error about \<open>chair\<close> is produced.
\<close>

theorem aborted_correspondence_counterexample:
  "chair_concept \<in> set (concepts_of (JObj (metadata_with [list_id_concept, chair_concept])))
   \<and> explicit_id chair_concept = [JStr ''chair'']
   \<and> ''chair'' \<notin> set (group_ids bed_doc)
   \<and> fst (validate (example_env (Parsed bed_doc)
                      (Loaded (JObj (metadata_with [list_id_concept, chair_concept])))) init)
       = (False, [''Unexpected error: unhashable type''],
          [''Skipping JSON schema validation (jsonschema not installed)'',
           ''No <defs> element found; embedded stylesheet recommended''])
   \<and> ''Metadata concept '' @ quoted ''chair'' @ '' has no corresponding <g> element in the SVG''
       \<notin> set (result_errors (validate (example_env (Parsed bed_doc)
                      (Loaded (JObj (metadata_with [list_id_concept, chair_concept])))) init))"
  by code_simp

text \<open>
  C4, as amended. For a document whose metadata decodes: if the result is valid, the
  identifiers of the concepts that are not implicit are all among the non-empty \<open>id\<close>
  attributes of the groups that the group search returns. Conversely, when the decoded
  value is an object whose \<open>concepts\<close> is an array, a concept in it that is not implicit
  and whose identifier is a non-empty string carried by no group gets the error about
  the missing element, provided no entry before it ends the loop (an entry that is not
  an object, or one that is not implicit and has a non-empty list or dict as identifier).
\<close>

theorem concept_group_correspondence:
  assumes "et_parse env = Parsed r" and "svg_root r"
    and "find_svg ''metadata'' r = Some m" and "elem_text m = Some t"
    and "json_loads env t = Loaded v"
  shows "(is_valid (validate env st) \<longrightarrow> set (explicit_ids v) \<subseteq> JStr ` set (group_ids r))
       \<and> (\<forall>kvs pre cpt post i.
             \<not> text_blank (Some t) \<and> v = JObj kvs
             \<and> map_of kvs ''concepts'' = Some (JArr (pre @ JObj cpt # post))
             \<and> (\<forall>x\<in>set pre. \<not> aborts x)
             \<and> \<not> truthy (dict_get cpt ''implicit'' (JBool False))
             \<and> dict_get cpt ''id'' JNull = JStr i \<and> i \<noteq> [] \<and> i \<notin> set (group_ids r)
           \<longrightarrow> ''Metadata concept '' @ quoted i @ '' has no corresponding <g> element in the SVG''
                 \<in> set (result_errors (validate env st)))"
proof (intro conjI allI impI)
  assume "is_valid (validate env st)"
  then show "set (explicit_ids v) \<subseteq> JStr ` set (group_ids r)"
    by (rule valid_correspondence [OF assms])
next
  fix kvs pre cpt post i
  assume h: "\<not> text_blank (Some t) \<and> v = JObj kvs
             \<and> map_of kvs ''concepts'' = Some (JArr (pre @ JObj cpt # post))
             \<and> (\<forall>x\<in>set pre. \<not> aborts x)
             \<and> \<not> truthy (dict_get cpt ''implicit'' (JBool False))
             \<and> dict_get cpt ''id'' JNull = JStr i \<and> i \<noteq> [] \<and> i \<notin> set (group_ids r)"
  let ?msg = "''Metadata concept '' @ quoted i @ '' has no corresponding <g> element in the SVG''"
  have l: "json_loads env t = Loaded (JObj kvs)" using assms(5) h by simp
  have step: "check_concept (py_repr env) (group_ids r) (JObj cpt) s = (None, add_error ?msg s)" for s
    using h by (intro explicit_concept_not_found) simp_all
  from concept_finding_reported [OF assms(1-4) _ l _ _ step, of pre post st] h
  obtain s where "extends (add_error ?msg s) (snd (pipeline env (st\<lparr>errors := [], warnings := []\<rparr>)))"
    by blast
  then have "?msg \<in> set (errors (snd (pipeline env (st\<lparr>errors := [], warnings := []\<rparr>))))"
    by (rule extends_errors) (simp add: add_error_def)
  then show "?msg \<in> set (result_errors (validate env st))"
    using result_of_pipeline(1) [of env st] by blast
qed

theorem concept_group_correspondence_witness:
  "is_valid (validate (example_env (Parsed bed_doc)
                        (Loaded (JObj (metadata_with [bed_concept, ghost_concept])))) init)
   \<and> set (explicit_ids (JObj (metadata_with [bed_concept, ghost_concept])))
        \<subseteq> JStr ` set (group_ids bed_doc)
   \<and> explicit_ids (JObj (metadata_with [bed_concept, ghost_concept])) = [JStr ''bed'']
   \<and> ''Metadata concept '' @ quoted ''chair'' @ '' has no corresponding <g> element in the SVG''
       \<in> set (result_errors (validate (example_env (Parsed bed_doc)
                      (Loaded (JObj (metadata_with [bed_concept, chair_concept])))) init))"
proof -
  let ?v1 = "JObj (metadata_with [bed_concept, ghost_concept])"
  let ?v2 = "JObj (metadata_with [bed_concept, chair_concept])"
  let ?e1 = "example_env (Parsed bed_doc) (Loaded ?v1)"
  let ?e2 = "example_env (Parsed bed_doc) (Loaded ?v2)"
  let ?chair = "[(''role'', JStr ''theme''), (''label'', JStr ''chair''), (''id'', JStr ''chair'')]"
  have a: "et_parse ?e1 = Parsed bed_doc" "et_parse ?e2 = Parsed bed_doc"
    by (simp_all add: example_env_def)
  have b: "svg_root bed_doc" by code_simp
  have c: "find_svg ''metadata'' bed_doc = Some metadata_elem" by code_simp
  have d: "elem_text metadata_elem = Some ''{...}''" by code_simp
  have l: "json_loads ?e1 ''{...}'' = Loaded ?v1" "json_loads ?e2 ''{...}'' = Loaded ?v2"
    by (simp_all add: example_env_def)
  have v: "is_valid (validate ?e1 init)" by code_simp
  have x: "explicit_ids ?v1 = [JStr ''bed'']" by code_simp
  note t1 = concept_group_correspondence [OF a(1) b c d l(1), of init]
  have 1: "set (explicit_ids ?v1) \<subseteq> JStr ` set (group_ids bed_doc)"
    using t1 [THEN conjunct1] v by simp
  have h: "\<not> text_blank (Some ''{...}'')"
    "map_of (metadata_with [bed_concept, chair_concept]) ''concepts''
       = Some (JArr ([bed_concept] @ JObj ?chair # []))"
    "\<not> aborts bed_concept"
    "\<not> truthy (dict_get ?chair ''implicit'' (JBool False))"
    "dict_get ?chair ''id'' JNull = JStr ''chair''" "''chair'' \<noteq> []"
    "''chair'' \<notin> set (group_ids bed_doc)"
    by code_simp+
  note t2 = concept_group_correspondence [OF a(2) b c d l(2), of init, THEN conjunct2, rule_format,
      of "metadata_with [bed_concept, chair_concept]" "[bed_concept]" ?chair "[]" "''chair''"]
  have 2: "''Metadata concept '' @ quoted ''chair'' @ '' has no corresponding <g> element in the SVG''
       \<in> set (result_errors (validate ?e2 init))"
    using h by (intro t2) simp_all
  show ?thesis by (intro conjI) (fact v 1 x 2)+
qed

subsection \<open>C5: a concept with or without identifier\<close>

text \<open>
  Checked against a metadata block whose first concept has a list as identifier and whose
  second concept is implicit and has the identifier \<open>ghost\<close>: the loop of
  \<open>_check_concept_group_correspondence\<close> ends with the exception the first concept
  raises, and no warning about \<open>ghost\<close> is produced. And against a block whose implicit
  concept has the empty string as identifier: the warning is guarded by \<open>if concept_id\<close>,
  which the empty string fails, so the key is present and no warning is produced.
\<close>

theorem aborted_loop_counterexample:
  "ghost_concept \<in> set (concepts_of (JObj (metadata_with [list_id_concept, ghost_concept])))
   \<and> ghost_concept = JObj [(''role'', JStr ''agent''), (''label'', JStr ''someone''),
                            (''implicit'', JBool True), (''id'', JStr ''ghost'')]
   \<and> fst (validate (example_env (Parsed bed_doc)
                      (Loaded (JObj (metadata_with [list_id_concept, ghost_concept])))) init)
       = (False, [''Unexpected error: unhashable type''],
          [''Skipping JSON schema validation (jsonschema not installed)'',
           ''No <defs> element found; embedded stylesheet recommended''])
   \<and> ''Concept '' @ quoted ''ghost'' @ '' is marked as implicit but has an '' @ quoted ''id''
        @ '' field. Implicit concepts typically don'' @ q @ ''t have corresponding SVG groups.''
       \<notin> set (result_warnings (validate (example_env (Parsed bed_doc)
                      (Loaded (JObj (metadata_with [list_id_concept, ghost_concept])))) init))
   \<and> blank_ghost_concept = JObj [(''role'', JStr ''agent''), (''label'', JStr ''someone''),
                                  (''implicit'', JBool True), (''id'', JStr [])]
   \<and> fst (validate (example_env (Parsed bed_doc)
                      (Loaded (JObj (metadata_with [bed_concept, blank_ghost_concept])))) init)
       = (True, [],
          [''Skipping JSON schema validation (jsonschema not installed)'',
           ''No <defs> element found; embedded stylesheet recommended''])"
  by code_simp

text \<open>
  C5, as amended. Take a concept entry that is an object, in the \<open>concepts\<close> array of a
  decoded metadata object. If its \<open>implicit\<close> is false or absent and it has no identifier
  (none, or a false one such as the empty string), the report has the error that names
  its role, provided no entry before it ends the correspondence loop; whenever the basic
  strategy runs (\<open>jsonschema\<close> not installed, or the schema file missing or unreadable)
  and the key \<open>id\<close> is absent, the report also has the error of that strategy, with the
  index and the role, whatever the other entries are. If its \<open>implicit\<close> is true and its
  identifier is a true value (a non-empty string), the report has the warning about it,
  again provided no entry before it ends the loop, and the loop body leaves the errors
  as they are; if the identifier is present but false, the loop body adds no finding.
\<close>

theorem concept_identifier_findings:
  assumes "et_parse env = Parsed r" and "svg_root r"
    and "find_svg ''metadata'' r = Some m" and "elem_text m = Some t"
    and "\<not> text_blank (Some t)" and "json_loads env t = Loaded (JObj kvs)"
    and "map_of kvs ''concepts'' = Some (JArr (pre @ JObj cpt # post))"
  shows "((\<forall>x\<in>set pre. \<not> aborts x)
            \<and> \<not> truthy (dict_get cpt ''implicit'' (JBool False))
            \<and> \<not> truthy (dict_get cpt ''id'' JNull)
          \<longrightarrow> ''Concept with role ''
                 @ quoted (py_str (py_repr env) (dict_get cpt ''role'' (JStr ''unknown'')))
                 @ '' is not marked as implicit but has no '' @ quoted ''id'' @ '' field''
               \<in> set (result_errors (validate env st)))
       \<and> (basic_runs env
            \<and> \<not> truthy (dict_get cpt ''implicit'' (JBool False))
            \<and> map_of cpt ''id'' = None
          \<longrightarrow> ''Missing required field '' @ quoted ''id''
                 @ '' in metadata.concepts['' @ nat_str (length pre) @ ''] (role: ''
                 @ py_str (py_repr env) (dict_get cpt ''role'' (JStr ''unknown''))
                 @ ''). Explicit concepts must have an '' @ quoted ''id'' @ '' field.''
               \<in> set (result_errors (validate env st)))
       \<and> ((\<forall>x\<in>set pre. \<not> aborts x)
            \<and> truthy (dict_get cpt ''implicit'' (JBool False))
            \<and> truthy (dict_get cpt ''id'' JNull)
          \<longrightarrow> ''Concept '' @ quoted (py_str (py_repr env) (dict_get cpt ''id'' JNull))
                 @ '' is marked as implicit but has an '' @ quoted ''id''
                 @ '' field. Implicit concepts typically don'' @ q
                 @ ''t have corresponding SVG groups.''
               \<in> set (result_warnings (validate env st)))
       \<and> (truthy (dict_get cpt ''implicit'' (JBool False)) \<and> truthy (dict_get cpt ''id'' JNull)
          \<longrightarrow> (\<forall>ids s. errors (snd (check_concept (py_repr env) ids (JObj cpt) s)) = errors s))
       \<and> (truthy (dict_get cpt ''implicit'' (JBool False)) \<and> \<not> truthy (dict_get cpt ''id'' JNull)
          \<longrightarrow> (\<forall>ids s. check_concept (py_repr env) ids (JObj cpt) s = (None, s)))"
proof (intro conjI impI)
  let ?msg = "''Concept with role ''
                 @ quoted (py_str (py_repr env) (dict_get cpt ''role'' (JStr ''unknown'')))
                 @ '' is not marked as implicit but has no '' @ quoted ''id'' @ '' field''"
  assume h: "(\<forall>x\<in>set pre. \<not> aborts x)
            \<and> \<not> truthy (dict_get cpt ''implicit'' (JBool False))
            \<and> \<not> truthy (dict_get cpt ''id'' JNull)"
  have step: "check_concept (py_repr env) (group_ids r) (JObj cpt) s = (None, add_error ?msg s)" for s
    using h by (intro explicit_concept_no_id) simp_all
  from concept_finding_reported [OF assms _ step, of st] h
  obtain s where "extends (add_error ?msg s) (snd (pipeline env (st\<lparr>errors := [], warnings := []\<rparr>)))"
    by blast
  then have "?msg \<in> set (errors (snd (pipeline env (st\<lparr>errors := [], warnings := []\<rparr>))))"
    by (rule extends_errors) (simp add: add_error_def)
  then show "?msg \<in> set (result_errors (validate env st))"
    using result_of_pipeline(1) [of env st] by blast
next
  assume h: "basic_runs env
            \<and> \<not> truthy (dict_get cpt ''implicit'' (JBool False))
            \<and> map_of cpt ''id'' = None"
  show "''Missing required field '' @ quoted ''id''
                 @ '' in metadata.concepts['' @ nat_str (length pre) @ ''] (role: ''
                 @ py_str (py_repr env) (dict_get cpt ''role'' (JStr ''unknown''))
                 @ ''). Explicit concepts must have an '' @ quoted ''id'' @ '' field.''
               \<in> set (result_errors (validate env st))"
    using h
    by (intro basic_finding_reported [OF _ assms(1-6)] basic_concept_missing_id [OF _ assms(7)])
       simp_all
next
  let ?msg = "''Concept '' @ quoted (py_str (py_repr env) (dict_get cpt ''id'' JNull))
                 @ '' is marked as implicit but has an '' @ quoted ''id''
                 @ '' field. Implicit concepts typically don'' @ q
                 @ ''t have corresponding SVG groups.''"
  assume h: "(\<forall>x\<in>set pre. \<not> aborts x)
            \<and> truthy (dict_get cpt ''implicit'' (JBool False))
            \<and> truthy (dict_get cpt ''id'' JNull)"
  have step: "check_concept (py_repr env) (group_ids r) (JObj cpt) s = (None, add_warning ?msg s)" for s
    using h by (intro implicit_concept_with_id) simp_all
  from concept_finding_reported [OF assms _ step, of st] h
  obtain s where "extends (add_warning ?msg s) (snd (pipeline env (st\<lparr>errors := [], warnings := []\<rparr>)))"
    by blast
  then have "?msg \<in> set (warnings (snd (pipeline env (st\<lparr>errors := [], warnings := []\<rparr>))))"
    by (rule extends_warnings) (simp add: add_warning_def)
  then show "?msg \<in> set (result_warnings (validate env st))"
    by (simp add: result_of_pipeline(2))
next
  assume h: "truthy (dict_get cpt ''implicit'' (JBool False)) \<and> truthy (dict_get cpt ''id'' JNull)"
  show "\<forall>ids s. errors (snd (check_concept (py_repr env) ids (JObj cpt) s)) = errors s"
    using h by (simp add: implicit_concept_with_id add_warning_def)
next
  assume h: "truthy (dict_get cpt ''implicit'' (JBool False)) \<and> \<not> truthy (dict_get cpt ''id'' JNull)"
  show "\<forall>ids s. check_concept (py_repr env) ids (JObj cpt) s = (None, s)"
    using h by (simp add: implicit_concept_without_id)
qed

theorem concept_identifier_findings_witness:
  "''Concept '' @ quoted ''ghost'' @ '' is marked as implicit but has an '' @ quoted ''id''
        @ '' field. Implicit concepts typically don'' @ q @ ''t have corresponding SVG groups.''
       \<in> set (result_warnings (validate (example_env (Parsed bed_doc)
              (Loaded (JObj (metadata_with [bed_concept, ghost_concept, anonymous_concept])))) init))
   \<and> ''Concept with role '' @ quoted ''place'' @ '' is not marked as implicit but has no ''
        @ quoted ''id'' @ '' field''
       \<in> set (result_errors (validate (example_env (Parsed bed_doc)
              (Loaded (JObj (metadata_with [bed_concept, ghost_concept, anonymous_concept])))) init))
   \<and> ''Missing required field '' @ quoted ''id'' @ '' in metadata.concepts[2] (role: place). ''
        @ ''Explicit concepts must have an '' @ quoted ''id'' @ '' field.''
       \<in> set (result_errors (validate (example_env (Parsed bed_doc)
              (Loaded (JObj (metadata_with [bed_concept, ghost_concept, anonymous_concept])))) init))
   \<and> ''Missing required field '' @ quoted ''id'' @ '' in metadata.concepts[2] (role: place). ''
        @ ''Explicit concepts must have an '' @ quoted ''id'' @ '' field.''
       \<in> set (result_errors (validate (fallback_env (Parsed bed_doc)
              (Loaded (JObj (metadata_with [bed_concept, ghost_concept, anonymous_concept])))) init))
   \<and> ''Schema file not found: metadata.schema.json''
       \<in> set (result_warnings (validate (fallback_env (Parsed bed_doc)
              (Loaded (JObj (metadata_with [bed_concept, ghost_concept, anonymous_concept])))) init))
   \<and> fst (validate (example_env (Parsed bed_doc)
              (Loaded (JObj (metadata_with [bed_concept, ghost_concept])))) init)
       = (True, [],
          [''Skipping JSON schema validation (jsonschema not installed)'',
           ''No <defs> element found; embedded stylesheet recommended'',
           ''Concept '' @ quoted ''ghost'' @ '' is marked as implicit but has an '' @ quoted ''id''
             @ '' field. Implicit concepts typically don'' @ q @ ''t have corresponding SVG groups.''])"
proof -
  let ?kvs = "metadata_with [bed_concept, ghost_concept, anonymous_concept]"
  let ?e = "example_env (Parsed bed_doc) (Loaded (JObj ?kvs))"
  let ?ghost = "[(''role'', JStr ''agent''), (''label'', JStr ''someone''),
                 (''implicit'', JBool True), (''id'', JStr ''ghost'')]"
  let ?anon = "[(''role'', JStr ''place''), (''label'', JStr ''room'')]"
  have a: "et_parse ?e = Parsed bed_doc" by (simp add: example_env_def)
  have b: "svg_root bed_doc" by code_simp
  have c: "find_svg ''metadata'' bed_doc = Some metadata_elem" by code_simp
  have d: "elem_text metadata_elem = Some ''{...}''" "\<not> text_blank (Some ''{...}'')" by code_simp+
  have l: "json_loads ?e ''{...}'' = Loaded (JObj ?kvs)" by (simp add: example_env_def)
  have g: "map_of ?kvs ''concepts'' = Some (JArr ([bed_concept] @ JObj ?ghost # [anonymous_concept]))"
    by code_simp
  have n: "map_of ?kvs ''concepts'' = Some (JArr ([bed_concept, ghost_concept] @ JObj ?anon # []))"
    by code_simp
  have pre: "\<not> aborts bed_concept" "\<not> aborts ghost_concept" by code_simp+
  have hg: "truthy (dict_get ?ghost ''implicit'' (JBool False))" "truthy (dict_get ?ghost ''id'' JNull)"
    "py_str (py_repr ?e) (dict_get ?ghost ''id'' JNull) = ''ghost''"
    by code_simp+
  have hn: "\<not> truthy (dict_get ?anon ''implicit'' (JBool False))" "\<not> truthy (dict_get ?anon ''id'' JNull)"
    "map_of ?anon ''id'' = None" "basic_runs ?e"
    "py_str (py_repr ?e) (dict_get ?anon ''role'' (JStr ''unknown'')) = ''place''"
    "nat_str (length [bed_concept, ghost_concept]) = ''2''"
    by code_simp+
  note tg = concept_identifier_findings [OF a b c d l g, of init]
  note tn = concept_identifier_findings [OF a b c d l n, of init]
  have 1: "''Concept '' @ quoted ''ghost'' @ '' is marked as implicit but has an '' @ quoted ''id''
        @ '' field. Implicit concepts typically don'' @ q @ ''t have corresponding SVG groups.''
       \<in> set (result_warnings (validate ?e init))"
    using tg [THEN conjunct2, THEN conjunct2, THEN conjunct1] pre hg(1,2)
    unfolding hg(3) by simp
  have 2: "''Concept with role '' @ quoted ''place'' @ '' is not marked as implicit but has no ''
        @ quoted ''id'' @ '' field''
       \<in> set (result_errors (validate ?e init))"
    using tn [THEN conjunct1] pre hn(1,2)
    unfolding hn(5) by simp
  have 3: "''Missing required field '' @ quoted ''id'' @ '' in metadata.concepts[2] (role: place). ''
        @ ''Explicit concepts must have an '' @ quoted ''id'' @ '' field.''
       \<in> set (result_errors (validate ?e init))"
    using tn [THEN conjunct2, THEN conjunct1] hn(1,3,4)
    unfolding hn(5,6) by simp
  let ?f = "fallback_env (Parsed bed_doc) (Loaded (JObj ?kvs))"
  have fa: "et_parse ?f = Parsed bed_doc" "json_loads ?f ''{...}'' = Loaded (JObj ?kvs)"
    by (simp_all add: fallback_env_def example_env_def)
  have fh: "basic_runs ?f" "jsonschema_available ?f"
    "py_str (py_repr ?f) (dict_get ?anon ''role'' (JStr ''unknown'')) = ''place''"
    by code_simp+
  note tf = concept_identifier_findings [OF fa(1) b c d fa(2) n, of init]
  have 5: "''Missing required field '' @ quoted ''id'' @ '' in metadata.concepts[2] (role: place). ''
        @ ''Explicit concepts must have an '' @ quoted ''id'' @ '' field.''
       \<in> set (result_errors (validate ?f init))"
    using tf [THEN conjunct2, THEN conjunct1] hn(1,3) fh(1)
    unfolding fh(3) hn(6) by simp
  have 6: "''Schema file not found: metadata.schema.json''
       \<in> set (result_warnings (validate ?f init))"
    by code_simp
  have 4: "fst (validate (example_env (Parsed bed_doc)
              (Loaded (JObj (metadata_with [bed_concept, ghost_concept])))) init)
       = (True, [],
          [''Skipping JSON schema validation (jsonschema not installed)'',
           ''No <defs> element found; embedded stylesheet recommended'',
           ''Concept '' @ quoted ''ghost'' @ '' is marked as implicit but has an '' @ quoted ''id''
             @ '' field. Implicit concepts typically don'' @ q @ ''t have corresponding SVG groups.''])"
    by code_simp
  show ?thesis by (intro conjI) (fact 1 2 3 4 5 6)+
qed

subsection \<open>C6: the attributes of a semantic group\<close>

text \<open>
  Checked against the document \<open>lax_doc\<close>: a group with an empty \<open>data-concept\<close> and no
  other attribute, a group whose \<open>aria-label\<close> is empty, and a group outside the SVG
  namespace that lacks all three attributes. The group search returns the first two
  only, the semantic-group check reports no error, and the document is valid.
  \<open>required_attrs\<close> gives \<open>aria-label\<close> the expected value \<open>None\<close>, the entry that
  \<open>_check_root_attributes\<close> comments as "must exist but value varies".
\<close>

theorem lax_groups_counterexample:
  "find_groups lax_doc = [empty_concept_group, unlabelled_group]
   \<and> get_attr empty_concept_group ''data-concept'' = Some []
   \<and> get_attr empty_concept_group ''role'' = None
   \<and> get_attr unlabelled_group ''data-concept'' = Some ''foo''
   \<and> get_attr unlabelled_group ''aria-label'' = Some []
   \<and> plain_group \<in> set (iter_below lax_doc)
   \<and> get_attr plain_group ''data-concept'' = Some ''bar''
   \<and> get_attr plain_group ''role'' = None
   \<and> errors (check_semantic_groups_on lax_doc init) = []
   \<and> fst (validate (example_env (Parsed lax_doc) (Loaded (JObj (metadata_with [foo_concept])))) init)
       = (True, [],
          [''Skipping JSON schema validation (jsonschema not installed)'',
           ''No <defs> element found; embedded stylesheet recommended''])"
  by code_simp

text \<open>
  C6, as amended. Take a group that the group search returns at index \<open>i\<close> and whose
  \<open>data-concept\<close> is not empty, in a run whose metadata stage returns. Each of \<open>role\<close>,
  \<open>tabindex\<close> and \<open>aria-label\<close> that is missing, a \<open>role\<close> other than \<open>group\<close> and a
  \<open>tabindex\<close> other than \<open>0\<close> give an error in the report that names the group by its \<open>id\<close>
  attribute, or by \<open>(unnamed group i)\<close> when it has none. An \<open>aria-label\<close> that is present
  is not looked at: with the expected role and tabindex the group adds no finding.
\<close>

theorem semantic_group_attribute_errors:
  assumes "i < length (find_groups r)" and "find_groups r ! i = g"
    and "get_attr g ''data-concept'' = Some dc" and "dc \<noteq> []"
    and "et_parse env = Parsed r" and "svg_root r"
    and "fst (extract_and_validate_metadata_on env r
                (early_checks r (st\<lparr>errors := [], warnings := [], root := Some r\<rparr>))) = None"
  shows "(\<forall>attr \<in> {''role'', ''tabindex'', ''aria-label''}. get_attr g attr = None \<longrightarrow>
            ''Semantic group '' @ quoted (group_label i g) @ '' missing required attribute: '' @ attr
              \<in> set (result_errors (validate env st)))
       \<and> (\<forall>v. get_attr g ''role'' = Some v \<and> v \<noteq> ''group'' \<longrightarrow>
            ''Semantic group '' @ quoted (group_label i g) @ '' attribute '' @ quoted ''role''
              @ '': expected '' @ quoted ''group'' @ '', found '' @ quoted v
              \<in> set (result_errors (validate env st)))
       \<and> (\<forall>v. get_attr g ''tabindex'' = Some v \<and> v \<noteq> ''0'' \<longrightarrow>
            ''Semantic group '' @ quoted (group_label i g) @ '' attribute '' @ quoted ''tabindex''
              @ '': expected '' @ quoted ''0'' @ '', found '' @ quoted v
              \<in> set (result_errors (validate env st)))
       \<and> (\<forall>v. get_attr g ''id'' = Some v \<longrightarrow> group_label i g = v)
       \<and> (get_attr g ''id'' = None \<longrightarrow> group_label i g = ''(unnamed group '' @ nat_str i @ '')'')
       \<and> (\<forall>v s. get_attr g ''role'' = Some ''group'' \<and> get_attr g ''tabindex'' = Some ''0''
                 \<and> get_attr g ''aria-label'' = Some v \<longrightarrow> check_group (i, g) s = s)"
proof -
  note rep = group_findings_reported [OF assms(5-7)]
  note fnd = semantic_group_finding [OF assms(1-4)]
  have missing: "''Semantic group '' @ quoted (group_label i g) @ '' missing required attribute: '' @ attr
              \<in> set (result_errors (validate env st))"
    if "get_attr g attr = None" and "(attr, x) \<in> set required_group_attrs" for attr x
    by (rule rep, rule fnd [OF that(2)]) (simp add: group_attr_missing [OF that(1)])
  have a: "\<forall>attr \<in> {''role'', ''tabindex'', ''aria-label''}. get_attr g attr = None \<longrightarrow>
            ''Semantic group '' @ quoted (group_label i g) @ '' missing required attribute: '' @ attr
              \<in> set (result_errors (validate env st))"
    using missing [of "''role''" "Some ''group''"] missing [of "''tabindex''" "Some ''0''"]
      missing [of "''aria-label''" None]
    by (simp add: required_group_attrs_def)
  have mismatch: "''Semantic group '' @ quoted (group_label i g) @ '' attribute '' @ quoted attr
              @ '': expected '' @ quoted ev @ '', found '' @ quoted v
              \<in> set (result_errors (validate env st))"
    if "get_attr g attr = Some v" and "v \<noteq> ev" and "ev \<noteq> []"
      and "(attr, Some ev) \<in> set required_group_attrs" for attr ev v
    by (rule rep, rule fnd [OF that(4)]) (simp add: group_attr_mismatch [OF that(1,3,2)])
  have b: "\<forall>v. get_attr g ''role'' = Some v \<and> v \<noteq> ''group'' \<longrightarrow>
            ''Semantic group '' @ quoted (group_label i g) @ '' attribute '' @ quoted ''role''
              @ '': expected '' @ quoted ''group'' @ '', found '' @ quoted v
              \<in> set (result_errors (validate env st))"
    using mismatch [of "''role''" _ "''group''"] by (simp add: required_group_attrs_def)
  have c: "\<forall>v. get_attr g ''tabindex'' = Some v \<and> v \<noteq> ''0'' \<longrightarrow>
            ''Semantic group '' @ quoted (group_label i g) @ '' attribute '' @ quoted ''tabindex''
              @ '': expected '' @ quoted ''0'' @ '', found '' @ quoted v
              \<in> set (result_errors (validate env st))"
    using mismatch [of "''tabindex''" _ "''0''"] by (simp add: required_group_attrs_def)
  have d: "\<forall>v. get_attr g ''id'' = Some v \<longrightarrow> group_label i g = v"
    "get_attr g ''id'' = None \<longrightarrow> group_label i g = ''(unnamed group '' @ nat_str i @ '')''"
    by (simp_all add: group_label_def)
  have e: "\<forall>v s. get_attr g ''role'' = Some ''group'' \<and> get_attr g ''tabindex'' = Some ''0''
                 \<and> get_attr g ''aria-label'' = Some v \<longrightarrow> check_group (i, g) s = s"
    by (simp add: check_group_semantic [OF assms(3,4)] required_group_attrs_def check_group_attr_def)
  show ?thesis by (intro conjI) (fact a b c d e)+
qed

theorem semantic_group_attribute_errors_witness:
  "''Semantic group '' @ quoted ''(unnamed group 1)'' @ '' attribute '' @ quoted ''role''
      @ '': expected '' @ quoted ''group'' @ '', found '' @ quoted ''button''
     \<in> set (result_errors (validate (example_env (Parsed unnamed_doc)
                                       (Loaded (JObj (metadata_with [bed_concept])))) init))
   \<and> ''Semantic group '' @ quoted ''foo'' @ '' missing required attribute: aria-label''
     \<in> set (result_errors (validate (example_env (Parsed bare_doc)
                                       (Loaded (JObj (metadata_with [foo_concept])))) init))"
proof -
  let ?e1 = "example_env (Parsed unnamed_doc) (Loaded (JObj (metadata_with [bed_concept])))"
  let ?e2 = "example_env (Parsed bare_doc) (Loaded (JObj (metadata_with [foo_concept])))"
  have a1: "1 < length (find_groups unnamed_doc)" "find_groups unnamed_doc ! 1 = unnamed_group"
    "get_attr unnamed_group ''data-concept'' = Some ''bed''" "''bed'' \<noteq> []"
    by code_simp+
  have b1: "et_parse ?e1 = Parsed unnamed_doc" by (simp add: example_env_def)
  have c1: "svg_root unnamed_doc" by code_simp
  have d1: "fst (extract_and_validate_metadata_on ?e1 unnamed_doc
                (early_checks unnamed_doc (init\<lparr>errors := [], warnings := [], root := Some unnamed_doc\<rparr>))) = None"
    by code_simp
  have f1: "get_attr unnamed_group ''role'' = Some ''button''" "''button'' \<noteq> ''group''"
    "get_attr unnamed_group ''id'' = None" "nat_str 1 = ''1''"
    by code_simp+
  note t1 = semantic_group_attribute_errors [OF a1 b1 c1 d1]
  have l1: "group_label 1 unnamed_group = ''(unnamed group 1)''"
    using t1 f1(3,4) by simp
  have 1: "''Semantic group '' @ quoted ''(unnamed group 1)'' @ '' attribute '' @ quoted ''role''
      @ '': expected '' @ quoted ''group'' @ '', found '' @ quoted ''button''
     \<in> set (result_errors (validate ?e1 init))"
    using t1 [THEN conjunct2, THEN conjunct1, rule_format, of "''button''"] f1(1,2)
    unfolding l1 by simp
  have a2: "0 < length (find_groups bare_doc)" "find_groups bare_doc ! 0 = bare_group"
    "get_attr bare_group ''data-concept'' = Some ''foo''" "''foo'' \<noteq> []"
    by code_simp+
  have b2: "et_parse ?e2 = Parsed bare_doc" by (simp add: example_env_def)
  have c2: "svg_root bare_doc" by code_simp
  have d2: "fst (extract_and_validate_metadata_on ?e2 bare_doc
                (early_checks bare_doc (init\<lparr>errors := [], warnings := [], root := Some bare_doc\<rparr>))) = None"
    by code_simp
  have f2: "get_attr bare_group ''aria-label'' = None" "get_attr bare_group ''id'' = Some ''foo''"
    by code_simp+
  note t2 = semantic_group_attribute_errors [OF a2 b2 c2 d2]
  have l2: "group_label 0 bare_group = ''foo''"
    using t2 f2(2) by simp
  have 2: "''Semantic group '' @ quoted ''foo'' @ '' missing required attribute: aria-label''
     \<in> set (result_errors (validate ?e2 init))"
    using t2 [THEN conjunct1, rule_format, of "''aria-label''"] f2(1)
    unfolding l2 by simp
  show ?thesis by (intro conjI) (fact 1 2)+
qed

subsection \<open>C7: a payload that is not JSON\<close>

text \<open>
  Checked against the end-to-end document with a payload on which the decoder raises an
  exception other than \<open>JSONDecodeError\<close> (as \<open>json.loads\<close> does for an integer literal
  beyond the digit limit): \<open>_extract_and_validate_metadata\<close> catches \<open>JSONDecodeError\<close>
  only, so the exception reaches the second \<open>except\<close> clause of \<open>validate\<close>. The result has
  one error, the unexpected error with the text of the exception, and that entry does
  not mention JSON.
\<close>

theorem decoder_exception_counterexample:
  "fst (validate (example_env (Parsed bed_doc)
                    (LoadsRaised ''Exceeds the limit for integer string conversion'')) init)
     = (False, [''Unexpected error: Exceeds the limit for integer string conversion''], [])
   \<and> \<not> contains ''JSON'' ''Unexpected error: Exceeds the limit for integer string conversion''
   \<and> errors (early_checks bed_doc init) = []
   \<and> errors (check_semantic_groups_on bed_doc init) = []"
  by code_simp

text \<open>
  C7, as amended. When the root attributes, the title and the description raise no error
  and the text of the metadata element cannot be decoded, the result is invalid and its
  error sequence has exactly one entry: the error about the invalid JSON when the
  decoder reports a JSON decoding error, the unexpected error with the text of the
  exception when the decoder raises any other exception, and the error about the empty
  element when the text is absent or blank (the decoder is not called then). No schema
  or correspondence error is added.
\<close>

theorem undecodable_metadata_single_error:
  assumes "et_parse env = Parsed r" and "svg_root r"
    and "errors (early_checks r init) = []"
    and "find_svg ''metadata'' r = Some m"
  shows "(\<forall>t e. elem_text m = Some t \<and> \<not> text_blank (Some t)
                \<and> json_loads env t = JSONDecodeError e \<longrightarrow>
            \<not> is_valid (validate env st)
            \<and> result_errors (validate env st) = [''Invalid JSON in <metadata>: '' @ e])
       \<and> (\<forall>t e. elem_text m = Some t \<and> \<not> text_blank (Some t)
                \<and> json_loads env t = LoadsRaised e \<longrightarrow>
            \<not> is_valid (validate env st)
            \<and> result_errors (validate env st)
                = [''Unexpected error: '' @ err_str env (LibraryError e)])
       \<and> (text_blank (elem_text m) \<longrightarrow>
            \<not> is_valid (validate env st)
            \<and> result_errors (validate env st) = [''<metadata> element is empty''])
       \<and> ((\<forall>t v. elem_text m = Some t \<longrightarrow> json_loads env t \<noteq> Loaded v) \<longrightarrow>
            \<not> is_valid (validate env st) \<and> length (result_errors (validate env st)) = 1)"
proof -
  have a: "\<not> is_valid (validate env st)
           \<and> result_errors (validate env st) = [''Invalid JSON in <metadata>: '' @ e]"
    if "elem_text m = Some t" "\<not> text_blank (Some t)" "json_loads env t = JSONDecodeError e"
    for t e
    using fatal_run [OF assms(1,2) fatal_undecodable [OF assms(4) that], of st] assms(3)
    by (simp add: is_valid_def result_errors_def exn_message_def)
  have b: "\<not> is_valid (validate env st)
           \<and> result_errors (validate env st) = [''Unexpected error: '' @ err_str env (LibraryError e)]"
    if "elem_text m = Some t" "\<not> text_blank (Some t)" "json_loads env t = LoadsRaised e"
    for t e
    using fatal_run [OF assms(1,2) fatal_loads_raised [OF assms(4) that], of st] assms(3)
    by (simp add: is_valid_def result_errors_def exn_message_def)
  have c: "\<not> is_valid (validate env st)
           \<and> result_errors (validate env st) = [''<metadata> element is empty'']"
    if "text_blank (elem_text m)"
    using fatal_run [OF assms(1,2) fatal_empty [OF assms(4) that], of st] assms(3)
    by (simp add: is_valid_def result_errors_def exn_message_def)
  have d: "\<not> is_valid (validate env st) \<and> length (result_errors (validate env st)) = 1"
    if h: "\<forall>t v. elem_text m = Some t \<longrightarrow> json_loads env t \<noteq> Loaded v"
  proof (cases "text_blank (elem_text m)")
    case True
    with c show ?thesis by simp
  next
    case False
    then obtain t where t: "elem_text m = Some t" "\<not> text_blank (Some t)"
      by (cases "elem_text m") (simp_all add: text_blank_def)
    show ?thesis
    proof (cases "json_loads env t")
      case (Loaded v)
      with h t(1) show ?thesis by simp
    next
      case (JSONDecodeError e)
      with a [OF t] show ?thesis by simp
    next
      case (LoadsRaised e)
      with b [OF t] show ?thesis by simp
    qed
  qed
  show ?thesis using a b c d by blast
qed

theorem undecodable_metadata_single_error_witness:
  "\<not> is_valid (validate (example_env (Parsed bed_doc) (JSONDecodeError ''Expecting value'')) init)
   \<and> result_errors (validate (example_env (Parsed bed_doc) (JSONDecodeError ''Expecting value'')) init)
       = [''Invalid JSON in <metadata>: Expecting value'']
   \<and> result_errors (validate (example_env (Parsed bed_doc)
                                 (LoadsRaised ''Exceeds the limit for integer string conversion'')) init)
       = [''Unexpected error: Exceeds the limit for integer string conversion'']
   \<and> result_errors (validate (example_env (Parsed blank_metadata_doc) (Loaded JNull)) init)
       = [''<metadata> element is empty'']"
proof -
  let ?e = "example_env (Parsed bed_doc) (JSONDecodeError ''Expecting value'')"
  let ?f = "example_env (Parsed bed_doc)
              (LoadsRaised ''Exceeds the limit for integer string conversion'')"
  let ?g = "example_env (Parsed blank_metadata_doc) (Loaded JNull)"
  have a: "et_parse ?e = Parsed bed_doc" "et_parse ?f = Parsed bed_doc"
    "et_parse ?g = Parsed blank_metadata_doc"
    by (simp_all add: example_env_def)
  have b: "svg_root bed_doc" "svg_root blank_metadata_doc" by code_simp+
  have c: "errors (early_checks bed_doc init) = []"
    "errors (early_checks blank_metadata_doc init) = []" by code_simp+
  have d: "find_svg ''metadata'' bed_doc = Some metadata_elem"
    "find_svg ''metadata'' blank_metadata_doc = Some blank_metadata_elem" by code_simp+
  have f: "elem_text metadata_elem = Some ''{...}''" "\<not> text_blank (Some ''{...}'')"
    "text_blank (elem_text blank_metadata_elem)"
    by code_simp+
  have l: "json_loads ?e ''{...}'' = JSONDecodeError ''Expecting value''"
    "json_loads ?f ''{...}'' = LoadsRaised ''Exceeds the limit for integer string conversion''"
    "err_str ?f (LibraryError ''Exceeds the limit for integer string conversion'')
       = ''Exceeds the limit for integer string conversion''"
    by code_simp+
  have 1: "\<not> is_valid (validate ?e init)
           \<and> result_errors (validate ?e init) = [''Invalid JSON in <metadata>: Expecting value'']"
    using undecodable_metadata_single_error [OF a(1) b(1) c(1) d(1), of init, THEN conjunct1,
        rule_format, of "''{...}''" "''Expecting value''"] f(1,2) l(1)
    by simp
  have 2: "result_errors (validate ?f init)
             = [''Unexpected error: Exceeds the limit for integer string conversion'']"
    using undecodable_metadata_single_error [OF a(2) b(1) c(1) d(1), of init, THEN conjunct2,
        THEN conjunct1, rule_format, of "''{...}''"
        "''Exceeds the limit for integer string conversion''"] f(1,2) l(2)
    unfolding l(3) by simp
  have 3: "result_errors (validate ?g init) = [''<metadata> element is empty'']"
    using undecodable_metadata_single_error [OF a(3) b(2) c(2) d(2), of init, THEN conjunct2,
        THEN conjunct2, THEN conjunct1] f(3)
    by simp
  show ?thesis using 1 2 3 by (intro conjI) simp_all
qed

subsection \<open>C8: validating twice\<close>

text \<open>
  C8. A second call of \<open>validate\<close> on the object the first call left behind, in the same
  environment, returns the same triple; more generally the triple does not depend on
  the object the call starts from (\<open>self.errors\<close> and \<open>self.warnings\<close> are reset, and
  \<open>self.root\<close> and \<open>self.metadata\<close> are assigned before they are read).
\<close>

theorem validate_twice_same_result:
  "fst (validate env (snd (validate env st))) = fst (validate env st)
   \<and> fst (validate env st') = fst (validate env st)"
  using validate_state_independent [of env st] validate_state_independent [of env st']
    validate_state_independent [of env "snd (validate env st)"] by simp

theorem validate_twice_same_result_witness:
  "fst (validate (example_env (Parsed bare_doc) (Loaded (JObj (metadata_with [chair_concept]))))
         (snd (validate (example_env (Parsed bare_doc) (Loaded (JObj (metadata_with [chair_concept])))) init)))
   = fst (validate (example_env (Parsed bare_doc) (Loaded (JObj (metadata_with [chair_concept])))) init)
   \<and> length (result_errors (validate (example_env (Parsed bare_doc) (Loaded (JObj (metadata_with [chair_concept])))) init)) = 4
   \<and> length (result_warnings (validate (example_env (Parsed bare_doc) (Loaded (JObj (metadata_with [chair_concept])))) init)) = 2"
proof -
  let ?e = "example_env (Parsed bare_doc) (Loaded (JObj (metadata_with [chair_concept])))"
  have 1: "length (result_errors (validate ?e init)) = 4" by code_simp
  have 2: "length (result_warnings (validate ?e init)) = 2" by code_simp
  have 3: "fst (validate ?e (snd (validate ?e init))) = fst (validate ?e init)"
    by (rule validate_twice_same_result [of ?e init init, THEN conjunct1])
  show ?thesis by (intro conjI) (fact 1 2 3)+
qed

subsection \<open>C9: the basic strategy\<close>

text \<open>
  C9. Without \<open>jsonschema\<close> the basic strategy runs (the report carries the warning that
  schema validation is skipped), and a decoded metadata object that lacks one of the five
  required top-level fields, \<open>provenance\<close> among them, gets the error naming that field;
  the result is invalid.
\<close>

theorem basic_strategy_reports_missing_field:
  assumes "\<not> jsonschema_available env"
    and "et_parse env = Parsed r" and "svg_root r"
    and "find_svg ''metadata'' r = Some m" and "elem_text m = Some t" and "\<not> text_blank (Some t)"
    and "json_loads env t = Loaded (JObj kvs)"
    and "field \<in> set required_fields" and "map_of kvs field = None"
  shows "''Missing required metadata field: '' @ field \<in> set (result_errors (validate env st))
         \<and> ''Skipping JSON schema validation (jsonschema not installed)''
               \<in> set (result_warnings (validate env st))
         \<and> \<not> is_valid (validate env st)"
proof -
  let ?s0 = "st\<lparr>errors := [], warnings := []\<rparr>"
  let ?s1 = "early_checks r (?s0\<lparr>root := Some r\<rparr>)"
  let ?s2 = "add_warning ''Skipping JSON schema validation (jsonschema not installed)''
               ((check_metadata_id m ?s1)\<lparr>metadata := JObj kvs\<rparr>)"
  let ?E = "extract_and_validate_metadata_on env r ?s1"
  have E: "?E = validate_metadata_basic env ?s2"
    using assms(1,4-7)
    by (simp add: extract_and_validate_metadata_on_def Let_def text_blank_def)
  have md: "metadata ?s2 = JObj kvs" by (simp add: add_warning_def)
  have e1: "''Missing required metadata field: '' @ field \<in> set (errors (snd ?E))"
    unfolding E by (rule basic_reports_missing_field [OF md assms(8,9)])
  have "extends ?s2 (snd ?E)"
    unfolding E using growing_validate_metadata_basic by (simp add: growing_def)
  moreover have "''Skipping JSON schema validation (jsonschema not installed)'' \<in> set (warnings ?s2)"
    by (simp add: add_warning_def)
  ultimately have w1: "''Skipping JSON schema validation (jsonschema not installed)''
      \<in> set (warnings (snd ?E))"
    by (rule extends_warnings)
  note ext = pipeline_extends_metadata_stage [OF assms(2,3), of ?s0]
  have e2: "''Missing required metadata field: '' @ field \<in> set (errors (snd (pipeline env ?s0)))"
    by (rule extends_errors [OF ext e1])
  have w2: "''Skipping JSON schema validation (jsonschema not installed)''
      \<in> set (warnings (snd (pipeline env ?s0)))"
    by (rule extends_warnings [OF ext w1])
  have a: "''Missing required metadata field: '' @ field \<in> set (result_errors (validate env st))"
    using e2 result_of_pipeline(1) [of env st] by blast
  have b: "''Skipping JSON schema validation (jsonschema not installed)''
               \<in> set (result_warnings (validate env st))"
    using w2 by (simp add: result_of_pipeline(2))
  have c: "\<not> is_valid (validate env st)"
    using a by (auto simp: is_valid_def result_errors_def validate_def Let_def)
  show ?thesis by (intro conjI) (fact a b c)+
qed

theorem basic_strategy_reports_missing_field_witness:
  "''Missing required metadata field: provenance''
     \<in> set (result_errors (validate (example_env (Parsed bed_doc)
           (Loaded (JObj [(''version'', JStr ''1.0''), (''utterance'', JStr ''bed''),
              (''nsm'', JObj []), (''concepts'', JArr [bed_concept])]))) init))
   \<and> \<not> is_valid (validate (example_env (Parsed bed_doc)
           (Loaded (JObj [(''version'', JStr ''1.0''), (''utterance'', JStr ''bed''),
              (''nsm'', JObj []), (''concepts'', JArr [bed_concept])]))) init)"
proof -
  let ?kvs = "[(''version'', JStr ''1.0''), (''utterance'', JStr ''bed''),
              (''nsm'', JObj []), (''concepts'', JArr [bed_concept])]"
  let ?e = "example_env (Parsed bed_doc) (Loaded (JObj ?kvs))"
  have a: "\<not> jsonschema_available ?e" "et_parse ?e = Parsed bed_doc"
    by (simp_all add: example_env_def)
  have b: "svg_root bed_doc" by code_simp
  have d: "find_svg ''metadata'' bed_doc = Some metadata_elem" by code_simp
  have f: "elem_text metadata_elem = Some ''{...}''" "\<not> text_blank (Some ''{...}'')"
    "json_loads ?e ''{...}'' = Loaded (JObj ?kvs)" by code_simp+
  have g: "''provenance'' \<in> set required_fields" "map_of ?kvs ''provenance'' = None"
    by code_simp+
  from basic_strategy_reports_missing_field [OF a b d f g, of init] show ?thesis by simp
qed

subsection \<open>C10: a group whose \<open>data-concept\<close> is empty\<close>

text \<open>
  C10. For a group whose \<open>data-concept\<close> attribute is the empty string, the loop body of
  \<open>_check_semantic_groups\<close> leaves the report as it is: neither the completeness check
  nor the warning about \<open>role="group"\<close> without \<open>data-concept\<close> applies. The check of the
  whole document is therefore the loop over the groups before it followed by the loop
  over the groups after it.
\<close>

theorem empty_data_concept_no_finding:
  assumes "get_attr g ''data-concept'' = Some []"
  shows "check_group (i, g) st = st
         \<and> (find_groups r = xs @ g # ys \<longrightarrow>
              check_semantic_groups_on r st =
                fold check_group (enumerate (Suc (length xs)) ys)
                  (fold check_group (enumerate 0 xs) st))"
proof -
  have 1: "check_group (i, g) st = st" for i st
    using assms by (simp add: check_group_def Let_def attr_falsy_def)
  have 2: "check_semantic_groups_on r st =
             fold check_group (enumerate (Suc (length xs)) ys) (fold check_group (enumerate 0 xs) st)"
    if "find_groups r = xs @ g # ys"
    using that by (simp add: check_semantic_groups_on_def Let_def enumerate_append_eq 1)
  show ?thesis using 1 2 by blast
qed

theorem empty_data_concept_no_finding_witness:
  "get_attr empty_concept_group ''data-concept'' = Some []
   \<and> check_group (0, empty_concept_group) init = init
   \<and> find_groups lax_doc = [] @ empty_concept_group # [unlabelled_group]
   \<and> check_semantic_groups_on lax_doc init = fold check_group (enumerate 1 [unlabelled_group]) init"
proof -
  have a: "get_attr empty_concept_group ''data-concept'' = Some []" by code_simp
  have b: "find_groups lax_doc = [] @ empty_concept_group # [unlabelled_group]" by code_simp
  from empty_data_concept_no_finding [OF a, of 0 init lax_doc "[]" "[unlabelled_group]"] b
  have "check_group (0, empty_concept_group) init = init"
    "check_semantic_groups_on lax_doc init = fold check_group (enumerate 1 [unlabelled_group]) init"
    by simp_all
  with a b show ?thesis by simp
qed

end
